theory Spec2Isabelle
  imports Main
begin

section \<open>The node operation validator: admission handler of package webhook\<close>

text \<open>
  The handler \<open>Handle\<close> and its helpers are embedded function by function, under the
  names of the Go source. Strings are Go strings (byte lists). The event recorder is
  the list of events recorded so far, passed in and returned. Calls to the logger have
  no influence on the response or on the recorder and are left out. The decoder, the
  client and the recorder of the validator are taken to be set, as the manager sets
  them.
\<close>

subsection \<open>Library functions the handler calls\<close>

text \<open>
  Three library behaviours are not written out and stay parameters of the model:
  the quoting done by the verb \<open>%q\<close>, the Unicode part of \<open>strings.EqualFold\<close>
  (entered as soon as one of the two strings has a byte of 128 or more), and
  \<open>regexp.Compile\<close> on an expression that has a metacharacter or a byte of 128 or
  more.
\<close>

record GoLib =
  Quote :: "string \<Rightarrow> string"
  foldUnicode :: "string \<Rightarrow> string \<Rightarrow> bool"
  compileOther :: "string \<Rightarrow> string + (string \<Rightarrow> bool)"

text \<open>\<open>strings.HasPrefix(s, prefix)\<close>.\<close>

fun HasPrefix :: "string \<Rightarrow> string \<Rightarrow> bool" where
  "HasPrefix s [] = True"
| "HasPrefix [] (p # ps) = False"
| "HasPrefix (c # cs) (p # ps) = (c = p \<and> HasPrefix cs ps)"

text \<open>\<open>strings.Contains(s, substr)\<close>.\<close>

fun Contains :: "string \<Rightarrow> string \<Rightarrow> bool" where
  "Contains [] substr = HasPrefix [] substr"
| "Contains (c # cs) substr = (HasPrefix (c # cs) substr \<or> Contains cs substr)"

text \<open>
  \<open>strings.Split(s, sep)\<close> for a separator of one byte, which is how the source calls
  it (\<open>","\<close>): the pieces between the separators, a single piece \<open>s\<close> when there is
  no separator, so one empty piece for the empty string.
\<close>

fun Split :: "string \<Rightarrow> char \<Rightarrow> string list" where
  "Split [] sep = [[]]"
| "Split (c # cs) sep =
     (if c = sep then [] # Split cs sep
      else (case Split cs sep of [] \<Rightarrow> [[c]] | w # ws \<Rightarrow> (c # w) # ws))"

text \<open>
  \<open>strings.EqualFold(s, t)\<close>: the byte loop of the library for ASCII, where two bytes
  agree when they are equal or are the upper and lower case of one letter; the first
  byte of 128 or more hands the rest of both strings to the Unicode comparison.
\<close>

fun EqualFold :: "GoLib \<Rightarrow> string \<Rightarrow> string \<Rightarrow> bool" where
  "EqualFold lib [] t = (t = [])"
| "EqualFold lib (sr # s) [] = False"
| "EqualFold lib (sr # s) (tr # t) =
     (if (of_char sr :: nat) \<ge> 128 \<or> (of_char tr :: nat) \<ge> 128
        then foldUnicode lib (sr # s) (tr # t)
      else if tr = sr then EqualFold lib s t
      else
        (let lo = (if (of_char tr :: nat) < of_char sr then tr else sr);
             hi = (if (of_char tr :: nat) < of_char sr then sr else tr)
         in if (of_char (CHR ''A'') :: nat) \<le> of_char lo \<and> (of_char lo :: nat) \<le> of_char (CHR ''Z'')
               \<and> (of_char hi :: nat) = of_char lo + 32
            then EqualFold lib s t else False))"

text \<open>
  \<open>regexp.MatchString(pattern, s)\<close> compiles the pattern and, when that fails, returns
  \<open>false\<close> together with the error; otherwise it reports whether \<open>s\<close> contains any
  match of the expression. An expression made of ASCII bytes none of which is a
  metacharacter denotes itself, so it matches exactly where it occurs as a substring.
\<close>

definition metaChars :: string where
  "metaChars = [CHR 0x5C, CHR ''.'', CHR ''+'', CHR ''*'', CHR ''?'', CHR ''('', CHR '')'',
                CHR ''|'', CHR ''['', CHR '']'', CHR ''{'', CHR ''}'', CHR ''^'', CHR ''$'']"

definition isLiteralPattern :: "string \<Rightarrow> bool" where
  "isLiteralPattern expr = list_all (\<lambda>c. (of_char c :: nat) < 128 \<and> c \<notin> set metaChars) expr"

definition Compile :: "GoLib \<Rightarrow> string \<Rightarrow> string + (string \<Rightarrow> bool)" where
  "Compile lib expr =
     (if isLiteralPattern expr then Inr (\<lambda>s. Contains s expr) else compileOther lib expr)"

definition MatchString :: "GoLib \<Rightarrow> string \<Rightarrow> string \<Rightarrow> bool \<times> string option" where
  "MatchString lib pattern s =
     (case Compile lib pattern of
        Inl err \<Rightarrow> (False, Some err)
      | Inr re \<Rightarrow> (re s, None))"

text \<open>The verb \<open>%v\<close> on a slice of strings: the elements between brackets, separated by spaces.\<close>

fun joinSpace :: "string list \<Rightarrow> string" where
  "joinSpace [] = []"
| "joinSpace [x] = x"
| "joinSpace (x # y # ys) = x @ '' '' @ joinSpace (y # ys)"

definition fmtSlice :: "string list \<Rightarrow> string" where
  "fmtSlice xs = ''['' @ joinSpace xs @ '']''"

text \<open>\<open>os.Getenv(key)\<close>: the value of the variable, empty when it is not set.\<close>

definition Getenv :: "(string \<rightharpoonup> string) \<Rightarrow> string \<Rightarrow> string" where
  "Getenv env key = (case env key of None \<Rightarrow> [] | Some v \<Rightarrow> v)"

text \<open>A map read \<open>v, ok := m[k]\<close>: the empty string and \<open>false\<close> when the key is absent.\<close>

definition lookupOk :: "(string \<rightharpoonup> string) \<Rightarrow> string \<Rightarrow> string \<times> bool" where
  "lookupOk m k = (case m k of None \<Rightarrow> ([], False) | Some v \<Rightarrow> (v, True))"

subsection \<open>Data\<close>

type_synonym Operation = string

record NodeSpec =
  Unschedulable :: bool

record Node =
  Annotations :: "string \<rightharpoonup> string"
  Spec :: NodeSpec

text \<open>The zero value \<open>corev1.Node{}\<close>.\<close>

definition emptyNode :: Node where
  "emptyNode = \<lparr>Annotations = Map.empty, Spec = \<lparr>Unschedulable = False\<rparr>\<rparr>"

record ConfigMap =
  Data :: "string \<rightharpoonup> string"

text \<open>
  \<open>admission.Response\<close>: the verdict, the status code and the message of its result.
\<close>

record Response =
  Allowed :: bool
  Code :: int
  Message :: string

text \<open>What \<open>recorder.Event(object, eventtype, reason, message)\<close> records.\<close>

record Event =
  evObject :: Node
  evType :: string
  evReason :: string
  evMessage :: string

text \<open>
  \<open>admission.Request\<close>: the fields the handler reads. \<open>Username\<close> is
  \<open>req.UserInfo.Username\<close>; the two objects are raw, of a type \<open>'raw\<close> the decoder reads.
\<close>

record 'raw Request =
  Name :: string
  Operation :: string
  Username :: string
  OldObject :: 'raw
  Object :: 'raw

text \<open>
  \<open>NodeValidator\<close>. \<open>Decoder n raw into\<close> is \<open>n.Decoder.DecodeRaw(raw, &into)\<close>: \<open>None\<close>
  when it returns an error, otherwise the target after decoding into it (the target is
  an argument because the handler decodes twice into one variable). \<open>Client n key\<close>
  is \<open>n.Client.Get\<close> on a config map: the text of the error, or the object read.
\<close>

record 'raw NodeValidator =
  Decoder :: "'raw \<Rightarrow> Node \<Rightarrow> Node option"
  Client :: "string \<times> string \<Rightarrow> string + ConfigMap"
  Recorder :: "Event list"

subsection \<open>Constants\<close>

definition reasonAnnotation :: string where "reasonAnnotation = ''node.dana.io/reason''"
definition serviceAccountUser :: string where "serviceAccountUser = ''system:serviceaccount:''"
definition nodeUser :: string where "nodeUser = ''system:node:''"
definition systemAdminUser :: string where "systemAdminUser = ''system:admin''"
definition ForbiddenUsersEnv :: string where "ForbiddenUsersEnv = ''forbiddenUsers''"
definition Create :: Operation where "Create = ''create''"
definition Delete :: Operation where "Delete = ''delete''"
definition Cordon :: Operation where "Cordon = ''cordon''"
definition Uncordon :: Operation where "Uncordon = ''uncordon''"
definition cmName :: string where "cmName = ''node-operation-validator-config''"
definition cmNamespace :: string where "cmNamespace = ''node-operation-validator-system''"
definition reasonRegexPatternKey :: string where "reasonRegexPatternKey = ''reasonRegexPattern''"
definition allowedReasonsKey :: string where "allowedReasonsKey = ''allowedReasons''"
definition eventReason :: string where "eventReason = ''NodeOperation''"

text \<open>Constants of the packages \<open>admission/v1\<close>, \<open>core/v1\<close> and \<open>net/http\<close>.\<close>

definition admissionv1_Create :: string where "admissionv1_Create = ''CREATE''"
definition admissionv1_Delete :: string where "admissionv1_Delete = ''DELETE''"
definition admissionv1_Update :: string where "admissionv1_Update = ''UPDATE''"
definition EventTypeNormal :: string where "EventTypeNormal = ''Normal''"
definition StatusOK :: int where "StatusOK = 200"
definition StatusBadRequest :: int where "StatusBadRequest = 400"
definition StatusForbidden :: int where "StatusForbidden = 403"
definition StatusInternalServerError :: int where "StatusInternalServerError = 500"

text \<open>
  \<open>admission.Allowed\<close>, \<open>admission.Denied\<close> and \<open>admission.Errored\<close>: an allowing
  response has code 200, a denial code 403, an error the code it is given and the
  text of the error as message; only the first allows.
\<close>

definition admission_Allowed :: "string \<Rightarrow> Response" where
  "admission_Allowed msg = \<lparr>Allowed = True, Code = StatusOK, Message = msg\<rparr>"

definition admission_Denied :: "string \<Rightarrow> Response" where
  "admission_Denied msg = \<lparr>Allowed = False, Code = StatusForbidden, Message = msg\<rparr>"

definition admission_Errored :: "int \<Rightarrow> string \<Rightarrow> Response" where
  "admission_Errored code err = \<lparr>Allowed = False, Code = code, Message = err\<rparr>"

subsection \<open>The helpers\<close>

definition isServiceAccount :: "string \<Rightarrow> bool" where
  "isServiceAccount user = HasPrefix user serviceAccountUser"

definition isNode :: "string \<Rightarrow> bool" where
  "isNode user = HasPrefix user nodeUser"

fun isForbiddenUser :: "string \<Rightarrow> string list \<Rightarrow> bool" where
  "isForbiddenUser userToCheck [] = False"
| "isForbiddenUser userToCheck (user # forbiddenUsers) =
     (if user = userToCheck then True else isForbiddenUser userToCheck forbiddenUsers)"

fun reasonIsAllowed :: "GoLib \<Rightarrow> string list \<Rightarrow> string \<Rightarrow> bool" where
  "reasonIsAllowed lib [] reason = False"
| "reasonIsAllowed lib (allowedReason # allowedReasons) reason =
     (if EqualFold lib allowedReason reason then True
      else reasonIsAllowed lib allowedReasons reason)"

definition reasonMatchesPattern :: "GoLib \<Rightarrow> string \<Rightarrow> string \<Rightarrow> bool" where
  "reasonMatchesPattern lib pattern reason = fst (MatchString lib pattern reason)"

definition isReasonFreetext :: "Operation \<Rightarrow> string \<Rightarrow> bool" where
  "isReasonFreetext operation reason = (operation = Delete \<and> reason \<noteq> [])"

definition createNodeEvent :: "Node \<Rightarrow> Event list \<Rightarrow> string \<Rightarrow> string \<Rightarrow> Operation \<Rightarrow> Event list" where
  "createNodeEvent node recorder msg user operation =
     (let reason = eventReason @ '': '' @ operation;
          fullMessage = user @ '': '' @ msg
      in recorder @ [\<lparr>evObject = node, evType = EventTypeNormal,
                      evReason = reason, evMessage = fullMessage\<rparr>])"

definition validateNoReason :: "GoLib \<Rightarrow> bool \<Rightarrow> Operation \<Rightarrow> string \<Rightarrow> Response" where
  "validateNoReason lib doesReasonExist operation user =
     (if doesReasonExist
      then admission_Denied (''Don't forget to remove the '' @ Quote lib reasonAnnotation
                               @ '' annotation from the node'')
      else admission_Allowed ''Operation approved'')"

text \<open>
  \<open>userOnlyOperation\<close> returns the response and the recorder after the call. The
  cases of its \<open>switch\<close> are tried in the order of the source.
\<close>

definition userOnlyOperation ::
  "GoLib \<Rightarrow> Node \<Rightarrow> Event list \<Rightarrow> Operation \<Rightarrow> string \<Rightarrow> string list \<Rightarrow> string \<Rightarrow> bool \<Rightarrow> bool
     \<Rightarrow> string list \<Rightarrow> string \<Rightarrow> Response \<times> Event list" where
  "userOnlyOperation lib node recorder operation user forbiddenUsers reason isReasonRequired
       doesReasonExist allowedReasons reasonPattern =
     (if isForbiddenUser user forbiddenUsers then
        (admission_Denied (Quote lib user @ '' user is not allowed to '' @ operation
            @ '' a node. Please log in with a LDAP privileged user. You must also add ''
            @ Quote lib reasonAnnotation @ '' annotation''), recorder)
      else if isServiceAccount user then
        (admission_Allowed (''Service account '' @ Quote lib user @ '' is allowed to do everything''),
         createNodeEvent node recorder reason user operation)
      else if isNode user then
        (admission_Allowed (''Node '' @ Quote lib user @ '' is allowed to do everything''),
         createNodeEvent node recorder reason user operation)
      else if isReasonRequired then
        (if doesReasonExist then
           (if reasonIsAllowed lib allowedReasons reason \<or> reasonMatchesPattern lib reasonPattern reason
                \<or> isReasonFreetext operation reason
            then (admission_Allowed (operation @ '' operation has been approved''),
                  createNodeEvent node recorder reason user operation)
            else (admission_Denied (''Invalid reason '' @ Quote lib reason @ ''. Allowed reasons: ''
                    @ fmtSlice allowedReasons), recorder))
         else (admission_Denied (''You must add '' @ Quote lib reasonAnnotation @ '' annotation''),
               recorder))
      else
        (let response = validateNoReason lib doesReasonExist operation user
         in if Allowed response
            then (response, createNodeEvent node recorder [] user operation)
            else (response, recorder)))"

text \<open>
  \<open>getAllowedReasonsAndPattern\<close>: the error of the source is \<open>Inl\<close> with its text; a
  key missing from the config map reads as the empty string.
\<close>

definition getAllowedReasonsAndPattern ::
  "'raw NodeValidator \<Rightarrow> string \<Rightarrow> string + (string list \<times> string)" where
  "getAllowedReasonsAndPattern n namespace =
     (case Client n (namespace, cmName) of
        Inl err \<Rightarrow>
          Inl (''failed to fetch ConfigMap '' @ namespace @ ''/'' @ cmName @ '': '' @ err)
      | Inr webhookConfig \<Rightarrow>
          (let allowedReasons = (case lookupOk (Data webhookConfig) allowedReasonsKey of
                                   (v, ok) \<Rightarrow> if \<not> ok then [] else v);
               regexPattern = (case lookupOk (Data webhookConfig) reasonRegexPatternKey of
                                 (v, ok) \<Rightarrow> if \<not> ok then [] else v);
               reasons = Split allowedReasons (CHR '','')
           in Inr (reasons, regexPattern)))"

text \<open>
  \<open>Handle\<close>. The variables \<open>node\<close> and \<open>oldNode\<close> start as the zero node. Every call
  of the decoder has \<open>node\<close> as its target, in an update too, where the old object and
  then the new one are decoded into it; \<open>oldNode\<close> is never written. The environment
  \<open>env\<close> is the one \<open>os.Getenv\<close> reads.
\<close>

definition Handle ::
  "GoLib \<Rightarrow> (string \<rightharpoonup> string) \<Rightarrow> 'raw NodeValidator \<Rightarrow> 'raw Request \<Rightarrow> Response \<times> Event list" where
  "Handle lib env n req =
     (let node = emptyNode;
          oldNode = emptyNode;
          user = Username req;
          forbiddenUsers = Split (Getenv env ForbiddenUsersEnv) (CHR '','');
          forbiddenUsers = forbiddenUsers @ [systemAdminUser]
      in case getAllowedReasonsAndPattern n cmNamespace of
           Inl err \<Rightarrow>
             (admission_Errored StatusInternalServerError
                (''failed to fetch allowed reasons: '' @ err), Recorder n)
         | Inr (allowedReasons, reasonRegex) \<Rightarrow>
             if Operation req = admissionv1_Delete then
               (case Decoder n (OldObject req) node of
                  None \<Rightarrow> (admission_Errored StatusBadRequest
                             (''failed to decode node '' @ Quote lib (Name req)), Recorder n)
                | Some node \<Rightarrow>
                    (case lookupOk (Annotations node) reasonAnnotation of
                       (reason, doesReasonExist) \<Rightarrow>
                         userOnlyOperation lib oldNode (Recorder n) Delete user forbiddenUsers
                           reason True doesReasonExist allowedReasons reasonRegex))
             else if Operation req = admissionv1_Create then
               (case Decoder n (Object req) node of
                  None \<Rightarrow> (admission_Errored StatusBadRequest
                             (''failed to decode node '' @ Quote lib (Name req)), Recorder n)
                | Some node \<Rightarrow>
                    (case lookupOk (Annotations node) reasonAnnotation of
                       (_, doesReasonExist) \<Rightarrow>
                         (let response = validateNoReason lib doesReasonExist Create user
                          in if Allowed response
                             then (response, createNodeEvent oldNode (Recorder n) [] user (Operation req))
                             else (response, Recorder n))))
             else
               (case Decoder n (OldObject req) node of
                  None \<Rightarrow> (admission_Errored StatusBadRequest
                             (''failed to decode node '' @ Quote lib (Name req)), Recorder n)
                | Some node \<Rightarrow>
                    (case Decoder n (Object req) node of
                       None \<Rightarrow> (admission_Errored StatusBadRequest
                                  (''failed to decode node '' @ Quote lib (Name req)), Recorder n)
                     | Some node \<Rightarrow>
                         (case lookupOk (Annotations node) reasonAnnotation of
                            (reasonMessage, doesReasonExist) \<Rightarrow>
                              if \<not> Unschedulable (Spec oldNode) \<and> Unschedulable (Spec node) then
                                userOnlyOperation lib oldNode (Recorder n) Cordon user forbiddenUsers
                                  reasonMessage True doesReasonExist allowedReasons reasonRegex
                              else if Unschedulable (Spec oldNode) \<and> \<not> Unschedulable (Spec node) then
                                userOnlyOperation lib oldNode (Recorder n) Uncordon user forbiddenUsers
                                  reasonMessage False doesReasonExist allowedReasons reasonRegex
                              else (admission_Allowed ''Node was updated'', Recorder n)))))"

subsection \<open>A decoder, a library and a cluster for concrete requests\<close>

text \<open>
  A raw object as the fields of its JSON text that the handler can observe: the
  annotations it lists, and \<open>spec.unschedulable\<close> when the key is written. \<open>None\<close> is a
  text that does not decode. Decoding into a target overwrites the fields that are
  written and keeps the others; a map in the target keeps its entries, and of two
  entries of the text with one key the later one counts.
\<close>

record RawNode =
  rawAnnotations :: "(string \<times> string) list"
  rawUnschedulable :: "bool option"

definition decodeJSON :: "RawNode option \<Rightarrow> Node \<Rightarrow> Node option" where
  "decodeJSON raw into =
     (case raw of
        None \<Rightarrow> None
      | Some r \<Rightarrow>
          Some \<lparr>Annotations = Annotations into ++ map_of (rev (rawAnnotations r)),
                Spec = (case rawUnschedulable r of
                          None \<Rightarrow> Spec into
                        | Some b \<Rightarrow> \<lparr>Unschedulable = b\<rparr>)\<rparr>)"

text \<open>
  A library for concrete runs. Its \<open>%q\<close> puts the argument between double quotes, which
  is right for text without quotes, backslashes and control bytes. Its Unicode
  comparison and its compiler answer "different" and "does not compile"; the runs below
  reach them with no text of a byte of 128 or more and with the one expression \<open>a(b\<close>,
  whose parenthesis is never closed.
\<close>

definition plainLib :: GoLib where
  "plainLib = \<lparr>Quote = (\<lambda>s. [CHR 0x22] @ s @ [CHR 0x22]),
               foldUnicode = (\<lambda>s t. False),
               compileOther = (\<lambda>expr. Inl ''error parsing regexp'')\<rparr>"

text \<open>A validator whose client finds a config map with the given data, and one whose client fails.\<close>

definition validatorWith :: "(string \<rightharpoonup> string) \<Rightarrow> RawNode option NodeValidator" where
  "validatorWith cm =
     \<lparr>Decoder = decodeJSON, Client = (\<lambda>key. Inr \<lparr>Data = cm\<rparr>), Recorder = []\<rparr>"

definition validatorNoConfig :: "RawNode option NodeValidator" where
  "validatorNoConfig =
     \<lparr>Decoder = decodeJSON, Client = (\<lambda>key. Inl ''not found''), Recorder = []\<rparr>"

definition rawNode :: "(string \<times> string) list \<Rightarrow> bool option \<Rightarrow> RawNode option" where
  "rawNode anns u = Some \<lparr>rawAnnotations = anns, rawUnschedulable = u\<rparr>"

text \<open>
  The three kinds of request the webhook is registered for, on a node \<open>worker-1\<close>. A
  delete request carries the old object only, a create request the new one only.
\<close>

definition deleteRequest :: "string \<Rightarrow> RawNode option \<Rightarrow> RawNode option Request" where
  "deleteRequest user old =
     \<lparr>Name = ''worker-1'', Operation = admissionv1_Delete, Username = user,
      OldObject = old, Object = None\<rparr>"

definition createRequest :: "string \<Rightarrow> RawNode option \<Rightarrow> RawNode option Request" where
  "createRequest user new =
     \<lparr>Name = ''worker-1'', Operation = admissionv1_Create, Username = user,
      OldObject = None, Object = new\<rparr>"

definition updateRequest ::
  "string \<Rightarrow> RawNode option \<Rightarrow> RawNode option \<Rightarrow> RawNode option Request" where
  "updateRequest user old new =
     \<lparr>Name = ''worker-1'', Operation = admissionv1_Update, Username = user,
      OldObject = old, Object = new\<rparr>"

section \<open>Properties\<close>

subsection \<open>Unfolding lemmas\<close>

lemmas const_defs = reasonAnnotation_def serviceAccountUser_def nodeUser_def systemAdminUser_def
  ForbiddenUsersEnv_def Create_def Delete_def Cordon_def Uncordon_def cmName_def cmNamespace_def
  reasonRegexPatternKey_def allowedReasonsKey_def eventReason_def admissionv1_Create_def
  admissionv1_Delete_def admissionv1_Update_def EventTypeNormal_def

lemmas status_defs = StatusOK_def StatusBadRequest_def StatusForbidden_def
  StatusInternalServerError_def

lemmas response_defs = admission_Allowed_def admission_Denied_def admission_Errored_def

lemma HasPrefix_iff: "HasPrefix s p \<longleftrightarrow> (\<exists>t. s = p @ t)"
  by (induction s p rule: HasPrefix.induct) auto

lemma Contains_iff: "Contains s sub \<longleftrightarrow> (\<exists>pre suf. s = pre @ sub @ suf)"
proof (induction s)
  case Nil
  show ?case by (cases sub) auto
next
  case (Cons c cs)
  have "(\<exists>pre suf. c # cs = pre @ sub @ suf) \<longleftrightarrow>
        (\<exists>suf. c # cs = sub @ suf) \<or> (\<exists>pre suf. cs = pre @ sub @ suf)"
  proof
    assume "\<exists>pre suf. c # cs = pre @ sub @ suf"
    then obtain pre suf where e: "c # cs = pre @ sub @ suf" by blast
    show "(\<exists>suf. c # cs = sub @ suf) \<or> (\<exists>pre suf. cs = pre @ sub @ suf)"
    proof (cases pre)
      case Nil
      with e show ?thesis by auto
    next
      case (Cons a pre')
      with e have "cs = pre' @ sub @ suf" by simp
      then show ?thesis by blast
    qed
  next
    assume "(\<exists>suf. c # cs = sub @ suf) \<or> (\<exists>pre suf. cs = pre @ sub @ suf)"
    then show "\<exists>pre suf. c # cs = pre @ sub @ suf"
    proof
      assume "\<exists>suf. c # cs = sub @ suf"
      then obtain suf where "c # cs = [] @ sub @ suf" by auto
      then show ?thesis by blast
    next
      assume "\<exists>pre suf. cs = pre @ sub @ suf"
      then obtain pre suf where "c # cs = (c # pre) @ sub @ suf" by auto
      then show ?thesis by blast
    qed
  qed
  with Cons show ?case by (simp add: HasPrefix_iff)
qed

lemma isForbiddenUser_iff: "isForbiddenUser u fs \<longleftrightarrow> u \<in> set fs"
  by (induction fs) auto

lemma reasonIsAllowed_iff:
  "reasonIsAllowed lib as r \<longleftrightarrow> (\<exists>a \<in> set as. EqualFold lib a r)"
  by (induction as) auto

lemma validateNoReason_Allowed: "Allowed (validateNoReason lib e operation user) = (\<not> e)"
  by (simp add: validateNoReason_def response_defs)

lemma validateNoReason_Message: "Message (validateNoReason lib e operation user) \<noteq> []"
  by (simp add: validateNoReason_def response_defs)

lemma validateNoReason_Code:
  "Code (validateNoReason lib e operation user) = (if e then StatusForbidden else StatusOK)"
  by (simp add: validateNoReason_def response_defs)

lemma userOnlyOperation_Message:
  "Message (fst (userOnlyOperation lib node recorder operation user forbiddenUsers reason
      isReasonRequired doesReasonExist allowedReasons reasonPattern)) \<noteq> []"
  by (simp add: userOnlyOperation_def response_defs validateNoReason_Message Let_def)

lemma userOnlyOperation_Code:
  "Code (fst (userOnlyOperation lib node recorder operation user forbiddenUsers reason
      isReasonRequired doesReasonExist allowedReasons reasonPattern)) =
   (if Allowed (fst (userOnlyOperation lib node recorder operation user forbiddenUsers reason
      isReasonRequired doesReasonExist allowedReasons reasonPattern)) then StatusOK else StatusForbidden)"
  by (simp add: userOnlyOperation_def response_defs validateNoReason_Code validateNoReason_Allowed Let_def)

lemma userOnlyOperation_events:
  "snd (userOnlyOperation lib node recorder operation user forbiddenUsers reason
      isReasonRequired doesReasonExist allowedReasons reasonPattern) =
   (if Allowed (fst (userOnlyOperation lib node recorder operation user forbiddenUsers reason
      isReasonRequired doesReasonExist allowedReasons reasonPattern))
    then createNodeEvent node recorder
           (if isServiceAccount user \<or> isNode user \<or> isReasonRequired then reason else [])
           user operation
    else recorder)"
  by (simp add: userOnlyOperation_def response_defs validateNoReason_Allowed Let_def)

lemma getAllowedReasonsAndPattern_Inl:
  "Client n (ns, cmName) = Inl err \<Longrightarrow>
   getAllowedReasonsAndPattern n ns =
     Inl (''failed to fetch ConfigMap '' @ ns @ ''/'' @ cmName @ '': '' @ err)"
  by (simp add: getAllowedReasonsAndPattern_def)

lemma getAllowedReasonsAndPattern_Inr:
  "Client n (ns, cmName) = Inr cm \<Longrightarrow>
   \<exists>rs p. getAllowedReasonsAndPattern n ns = Inr (rs, p)"
  by (simp add: getAllowedReasonsAndPattern_def Let_def)

lemma Handle_fetch_error:
  "getAllowedReasonsAndPattern n cmNamespace = Inl err \<Longrightarrow>
   Handle lib env n req =
     (admission_Errored StatusInternalServerError (''failed to fetch allowed reasons: '' @ err),
      Recorder n)"
  by (simp add: Handle_def Let_def)

lemma Handle_Delete:
  "getAllowedReasonsAndPattern n cmNamespace = Inr (rs, p) \<Longrightarrow>
   Operation req = admissionv1_Delete \<Longrightarrow>
   Decoder n (OldObject req) emptyNode = Some node \<Longrightarrow>
   Handle lib env n req =
     userOnlyOperation lib emptyNode (Recorder n) Delete (Username req)
       (Split (Getenv env ForbiddenUsersEnv) (CHR '','') @ [systemAdminUser])
       (fst (lookupOk (Annotations node) reasonAnnotation)) True
       (snd (lookupOk (Annotations node) reasonAnnotation)) rs p"
  by (simp add: Handle_def Let_def split: prod.splits)

lemma Handle_Create:
  "getAllowedReasonsAndPattern n cmNamespace = Inr (rs, p) \<Longrightarrow>
   Operation req = admissionv1_Create \<Longrightarrow>
   Decoder n (Object req) emptyNode = Some node \<Longrightarrow>
   Handle lib env n req =
     (if Annotations node reasonAnnotation = None
      then (admission_Allowed ''Operation approved'',
            createNodeEvent emptyNode (Recorder n) [] (Username req) (Operation req))
      else (validateNoReason lib True Create (Username req), Recorder n))"
  by (simp add: Handle_def Let_def lookupOk_def validateNoReason_def response_defs
      admissionv1_Create_def admissionv1_Delete_def split: prod.splits option.splits)

lemma Handle_update:
  "getAllowedReasonsAndPattern n cmNamespace = Inr (rs, p) \<Longrightarrow>
   Operation req \<noteq> admissionv1_Delete \<Longrightarrow> Operation req \<noteq> admissionv1_Create \<Longrightarrow>
   Decoder n (OldObject req) emptyNode = Some before \<Longrightarrow>
   Decoder n (Object req) before = Some node \<Longrightarrow>
   Handle lib env n req =
     (if Unschedulable (Spec node)
      then userOnlyOperation lib emptyNode (Recorder n) Cordon (Username req)
             (Split (Getenv env ForbiddenUsersEnv) (CHR '','') @ [systemAdminUser])
             (fst (lookupOk (Annotations node) reasonAnnotation)) True
             (snd (lookupOk (Annotations node) reasonAnnotation)) rs p
      else (admission_Allowed ''Node was updated'', Recorder n))"
  by (simp add: Handle_def Let_def emptyNode_def split: prod.splits)

lemma Handle_decode_errors:
  "getAllowedReasonsAndPattern n cmNamespace = Inr (rs, p) \<Longrightarrow>
   (Operation req = admissionv1_Delete \<and> Decoder n (OldObject req) emptyNode = None) \<or>
   (Operation req \<noteq> admissionv1_Delete \<and> Operation req = admissionv1_Create
      \<and> Decoder n (Object req) emptyNode = None) \<or>
   (Operation req \<noteq> admissionv1_Delete \<and> Operation req \<noteq> admissionv1_Create
      \<and> (Decoder n (OldObject req) emptyNode = None \<or>
          (\<exists>before. Decoder n (OldObject req) emptyNode = Some before
             \<and> Decoder n (Object req) before = None))) \<Longrightarrow>
   Handle lib env n req =
     (admission_Errored StatusBadRequest (''failed to decode node '' @ Quote lib (Name req)),
      Recorder n)"
  by (auto simp add: Handle_def Let_def)

lemma isLiteralPattern_Nil: "isLiteralPattern []"
  by (simp add: isLiteralPattern_def)

lemma reasonMatchesPattern_literal:
  "isLiteralPattern p \<Longrightarrow> reasonMatchesPattern lib p reason = Contains reason p"
  by (simp add: reasonMatchesPattern_def MatchString_def Compile_def)

lemma reasonMatchesPattern_error:
  "Compile lib p = Inl err \<Longrightarrow> reasonMatchesPattern lib p reason = False"
  by (simp add: reasonMatchesPattern_def MatchString_def)

lemma Contains_Nil: "Contains s []"
  by (cases s) simp_all

lemma userOnlyOperation_regular:
  "\<not> isForbiddenUser user forbiddenUsers \<Longrightarrow> \<not> isServiceAccount user \<Longrightarrow> \<not> isNode user \<Longrightarrow>
   userOnlyOperation lib node recorder operation user forbiddenUsers reason True True
      allowedReasons reasonPattern =
   (if reasonIsAllowed lib allowedReasons reason \<or> reasonMatchesPattern lib reasonPattern reason
         \<or> isReasonFreetext operation reason
    then (admission_Allowed (operation @ '' operation has been approved''),
          createNodeEvent node recorder reason user operation)
    else (admission_Denied (''Invalid reason '' @ Quote lib reason @ ''. Allowed reasons: ''
            @ fmtSlice allowedReasons), recorder))"
  by (simp add: userOnlyOperation_def)

lemma userOnlyOperation_forbidden:
  "isForbiddenUser user forbiddenUsers \<Longrightarrow>
   userOnlyOperation lib node recorder operation user forbiddenUsers reason isReasonRequired
       doesReasonExist allowedReasons reasonPattern =
     (admission_Denied (Quote lib user @ '' user is not allowed to '' @ operation
        @ '' a node. Please log in with a LDAP privileged user. You must also add ''
        @ Quote lib reasonAnnotation @ '' annotation''), recorder)"
  by (simp add: userOnlyOperation_def)

lemma userOnlyOperation_trusted:
  "\<not> isForbiddenUser user forbiddenUsers \<Longrightarrow> isServiceAccount user \<or> isNode user \<Longrightarrow>
   Allowed (fst (userOnlyOperation lib node recorder operation user forbiddenUsers reason
      isReasonRequired doesReasonExist allowedReasons reasonPattern))
   \<and> snd (userOnlyOperation lib node recorder operation user forbiddenUsers reason
      isReasonRequired doesReasonExist allowedReasons reasonPattern)
     = createNodeEvent node recorder reason user operation"
  by (auto simp add: userOnlyOperation_def response_defs)

lemma getAllowedReasonsAndPattern_ok:
  "Client n (ns, cmName) = Inr cm \<Longrightarrow>
   getAllowedReasonsAndPattern n ns =
     Inr (Split (fst (lookupOk (Data cm) allowedReasonsKey)) (CHR '',''),
          fst (lookupOk (Data cm) reasonRegexPatternKey))"
  by (auto simp add: getAllowedReasonsAndPattern_def Let_def lookupOk_def split: option.splits)

lemma systemAdminUser_forbidden:
  "isForbiddenUser systemAdminUser (fs @ [systemAdminUser])"
  by (simp add: isForbiddenUser_iff)

lemma isLiteralPattern_bad: "\<not> isLiteralPattern ''a(b''"
  by (simp add: isLiteralPattern_def metaChars_def)

lemmas sample_defs = validatorWith_def validatorNoConfig_def decodeJSON_def rawNode_def
  deleteRequest_def createRequest_def updateRequest_def emptyNode_def

lemma Handle_Delete_forbidden:
  assumes "Client n (cmNamespace, cmName) = Inr cm"
    and "isForbiddenUser (Username req)
           (Split (Getenv env ForbiddenUsersEnv) (CHR '','') @ [systemAdminUser])"
    and "Operation req = admissionv1_Delete"
    and "Decoder n (OldObject req) emptyNode = Some obj"
  shows "\<not> Allowed (fst (Handle lib env n req)) \<and> Code (fst (Handle lib env n req)) = StatusForbidden
         \<and> snd (Handle lib env n req) = Recorder n"
  using assms
  by (simp add: Handle_Delete [OF getAllowedReasonsAndPattern_ok [OF assms(1)]]
      userOnlyOperation_forbidden response_defs)

lemma Handle_Cordon_forbidden:
  assumes "Client n (cmNamespace, cmName) = Inr cm"
    and "isForbiddenUser (Username req)
           (Split (Getenv env ForbiddenUsersEnv) (CHR '','') @ [systemAdminUser])"
    and "Operation req \<noteq> admissionv1_Delete" "Operation req \<noteq> admissionv1_Create"
    and "Decoder n (OldObject req) emptyNode = Some before"
    and "Decoder n (Object req) before = Some obj"
    and "Unschedulable (Spec obj)"
  shows "\<not> Allowed (fst (Handle lib env n req)) \<and> Code (fst (Handle lib env n req)) = StatusForbidden
         \<and> snd (Handle lib env n req) = Recorder n"
  using assms
  by (simp add: Handle_update [OF getAllowedReasonsAndPattern_ok [OF assms(1)]]
      userOnlyOperation_forbidden response_defs)

lemma Handle_Create_any:
  assumes "Client n (cmNamespace, cmName) = Inr cm"
    and "Operation req = admissionv1_Create"
    and "Decoder n (Object req) emptyNode = Some obj"
  shows "Allowed (fst (Handle lib env n req)) = (Annotations obj reasonAnnotation = None)"
  using assms
  by (simp add: Handle_Create [OF getAllowedReasonsAndPattern_ok [OF assms(1)]]
      validateNoReason_Allowed response_defs)

lemma Getenv_unset_or_empty:
  "env key = None \<or> env key = Some [] \<Longrightarrow> Getenv env key = []"
  by (auto simp add: Getenv_def)

lemma getAllowedReasonsAndPattern_empty:
  assumes "Client n (ns, cmName) = Inr cm"
    and "Data cm allowedReasonsKey = None \<or> Data cm allowedReasonsKey = Some []"
    and "Data cm reasonRegexPatternKey = None \<or> Data cm reasonRegexPatternKey = Some []"
  shows "getAllowedReasonsAndPattern n ns = Inr ([[]], [])"
  using assms by (auto simp add: getAllowedReasonsAndPattern_def Let_def lookupOk_def)

lemma userOnlyOperation_empty_pattern:
  "\<not> isForbiddenUser user forbiddenUsers \<Longrightarrow> \<not> isServiceAccount user \<Longrightarrow> \<not> isNode user \<Longrightarrow>
   userOnlyOperation lib node recorder operation user forbiddenUsers reason True True
      allowedReasons [] =
    (admission_Allowed (operation @ '' operation has been approved''),
     createNodeEvent node recorder reason user operation)"
  by (simp add: userOnlyOperation_regular reasonMatchesPattern_literal isLiteralPattern_Nil
      Contains_Nil)

lemma userOnlyOperation_events_cases:
  "(\<not> Allowed (fst (userOnlyOperation lib node recorder operation user forbiddenUsers reason
        isReasonRequired doesReasonExist allowedReasons reasonPattern)) \<longrightarrow>
      snd (userOnlyOperation lib node recorder operation user forbiddenUsers reason
        isReasonRequired doesReasonExist allowedReasons reasonPattern) = recorder)
   \<and> (Allowed (fst (userOnlyOperation lib node recorder operation user forbiddenUsers reason
        isReasonRequired doesReasonExist allowedReasons reasonPattern)) \<longrightarrow>
      (\<exists>msg. snd (userOnlyOperation lib node recorder operation user forbiddenUsers reason
        isReasonRequired doesReasonExist allowedReasons reasonPattern)
         = createNodeEvent node recorder msg user operation))"
  using userOnlyOperation_events [of lib node recorder operation user forbiddenUsers reason
        isReasonRequired doesReasonExist allowedReasons reasonPattern]
  by auto

lemma Handle_events:
  "(\<not> Allowed (fst (Handle lib env n req)) \<longrightarrow> snd (Handle lib env n req) = Recorder n)
   \<and> (Allowed (fst (Handle lib env n req)) \<longrightarrow>
        Handle lib env n req = (admission_Allowed ''Node was updated'', Recorder n)
        \<or> (\<exists>msg operation.
              snd (Handle lib env n req)
                = createNodeEvent emptyNode (Recorder n) msg (Username req) operation))"
proof (cases "getAllowedReasonsAndPattern n cmNamespace")
  case (Inl err)
  then show ?thesis by (simp add: Handle_fetch_error response_defs)
next
  case (Inr cfg)
  obtain rs p where cfg: "cfg = (rs, p)" by (cases cfg)
  note g = Inr [unfolded cfg]
  show ?thesis
  proof (cases "Operation req = admissionv1_Delete")
    case True
    show ?thesis
    proof (cases "Decoder n (OldObject req) emptyNode")
      case None
      with True show ?thesis
        using Handle_decode_errors [OF g, of req lib env] by (simp add: response_defs)
    next
      case (Some obj)
      show ?thesis
        unfolding Handle_Delete [OF g True Some]
        using userOnlyOperation_events_cases by blast
    qed
  next
    case nd: False
    show ?thesis
    proof (cases "Operation req = admissionv1_Create")
      case True
      show ?thesis
      proof (cases "Decoder n (Object req) emptyNode")
        case None
        with True nd show ?thesis
          using Handle_decode_errors [OF g, of req lib env] by (simp add: response_defs)
      next
        case (Some obj)
        show ?thesis
          unfolding Handle_Create [OF g True Some]
          by (auto simp add: validateNoReason_Allowed response_defs)
      qed
    next
      case nc: False
      show ?thesis
      proof (cases "Decoder n (OldObject req) emptyNode")
        case None
        with nd nc show ?thesis
          using Handle_decode_errors [OF g, of req lib env] by (simp add: response_defs)
      next
        case (Some before)
        show ?thesis
        proof (cases "Decoder n (Object req) before")
          case None
          with nd nc Some show ?thesis
            using Handle_decode_errors [OF g, of req lib env] by (simp add: response_defs)
        next
          case obj: (Some obj)
          show ?thesis
          proof (cases "Unschedulable (Spec obj)")
            case True
            show ?thesis
              unfolding Handle_update [OF g nd nc Some obj] if_P [OF True]
              using userOnlyOperation_events_cases by blast
          next
            case False
            show ?thesis
              unfolding Handle_update [OF g nd nc Some obj] if_not_P [OF False]
              by (simp add: response_defs)
          qed
        qed
      qed
    qed
  qed
qed

lemma createNodeEvent_append:
  "\<exists>ev. createNodeEvent node recorder msg user operation = recorder @ [ev]
        \<and> evReason ev = eventReason @ '': '' @ operation"
  by (simp add: createNodeEvent_def Let_def)

lemma userOnlyOperation_one_event:
  "(Allowed (fst (userOnlyOperation lib node recorder operation user forbiddenUsers reason
        isReasonRequired doesReasonExist allowedReasons reasonPattern)) \<longrightarrow>
      (\<exists>ev. snd (userOnlyOperation lib node recorder operation user forbiddenUsers reason
        isReasonRequired doesReasonExist allowedReasons reasonPattern) = recorder @ [ev]
         \<and> evReason ev = eventReason @ '': '' @ operation))
   \<and> (\<not> Allowed (fst (userOnlyOperation lib node recorder operation user forbiddenUsers reason
        isReasonRequired doesReasonExist allowedReasons reasonPattern)) \<longrightarrow>
      snd (userOnlyOperation lib node recorder operation user forbiddenUsers reason
        isReasonRequired doesReasonExist allowedReasons reasonPattern) = recorder)"
  using userOnlyOperation_events [of lib node recorder operation user forbiddenUsers reason
        isReasonRequired doesReasonExist allowedReasons reasonPattern]
    createNodeEvent_append [of node recorder _ user operation]
  by auto

subsection \<open>Failure of the configuration fetch\<close>

text \<open>
  Claim C6. When the client cannot read the config map, \<open>Handle\<close> answers every
  request, whatever its operation, user and objects, with the error response of status
  500 that carries the text of the failure. That response does not allow, it is no
  denial (a denial has status 403) and no approval, and nothing is recorded: no decoder
  call, identity check or reason check comes before it.
\<close>

theorem Handle_config_fetch_failure:
  assumes "Client n (cmNamespace, cmName) = Inl err"
  shows "Handle lib env n req =
           (admission_Errored StatusInternalServerError
              (''failed to fetch allowed reasons: failed to fetch ConfigMap '' @ cmNamespace
                 @ ''/'' @ cmName @ '': '' @ err),
            Recorder n)
         \<and> \<not> Allowed (fst (Handle lib env n req))
         \<and> Code (fst (Handle lib env n req)) = StatusInternalServerError
         \<and> (\<forall>msg. fst (Handle lib env n req) \<noteq> admission_Denied msg)
         \<and> (\<forall>msg. fst (Handle lib env n req) \<noteq> admission_Allowed msg)"
proof -
  have h: "Handle lib env n req =
           (admission_Errored StatusInternalServerError
              (''failed to fetch allowed reasons: failed to fetch ConfigMap '' @ cmNamespace
                 @ ''/'' @ cmName @ '': '' @ err),
            Recorder n)"
    using Handle_fetch_error [OF getAllowedReasonsAndPattern_Inl [OF assms]] by simp
  show ?thesis
    unfolding h by (simp add: response_defs status_defs)
qed

theorem Handle_config_fetch_failure_witness:
  "Client validatorNoConfig (cmNamespace, cmName) = Inl ''not found''
   \<and> Handle plainLib Map.empty validatorNoConfig
        (deleteRequest ''alice'' (rawNode [(reasonAnnotation, ''Testing'')] None))
     = (\<lparr>Allowed = False, Code = 500,
         Message = ''failed to fetch allowed reasons: failed to fetch ConfigMap node-operation-validator-system/node-operation-validator-config: not found''\<rparr>,
        [])"
proof -
  have c: "Client validatorNoConfig (cmNamespace, cmName) = Inl ''not found''"
    by (simp add: validatorNoConfig_def)
  show ?thesis
    using Handle_config_fetch_failure
      [OF c, of plainLib Map.empty
         "deleteRequest ''alice'' (rawNode [(reasonAnnotation, ''Testing'')] None)"]
    by (simp add: validatorNoConfig_def response_defs status_defs const_defs)
qed

subsection \<open>Messages\<close>

text \<open>
  Claim C9. The response of \<open>Handle\<close> carries a message that is not empty on every
  path: approvals, denials and the error responses for a failed fetch or a failed
  decoding. So do the responses of \<open>userOnlyOperation\<close> and \<open>validateNoReason\<close> for
  all their arguments, which covers the call for \<open>Uncordon\<close> as well.
\<close>

theorem Handle_Message_nonempty:
  "Message (fst (Handle lib env n req)) \<noteq> []
   \<and> Message (fst (userOnlyOperation lib node recorder operation user forbiddenUsers reason
         isReasonRequired doesReasonExist allowedReasons reasonPattern)) \<noteq> []
   \<and> Message (validateNoReason lib doesReasonExist operation user) \<noteq> []"
proof -
  have "Message (fst (Handle lib env n req)) \<noteq> []"
  proof (cases "getAllowedReasonsAndPattern n cmNamespace")
    case (Inl err)
    then show ?thesis by (simp add: Handle_fetch_error response_defs)
  next
    case (Inr cfg)
    then show ?thesis
      by (cases cfg)
         (simp add: Handle_def Let_def response_defs userOnlyOperation_Message
            validateNoReason_Message split: option.splits prod.splits)
  qed
  then show ?thesis
    by (simp add: userOnlyOperation_Message validateNoReason_Message)
qed

subsection \<open>The pattern clause of the reason policy\<close>

text \<open>
  Claim C4, as the code has it. \<open>reasonMatchesPattern\<close> is \<open>regexp.MatchString\<close> with
  the error dropped, so it is not anchored and the empty pattern is no exception: the
  empty pattern accepts every reason text; a pattern of plain ASCII characters (no
  metacharacter) accepts exactly the reason texts that contain it somewhere, byte for
  byte, hence with case distinguished; a pattern that does not compile accepts none.
\<close>

theorem reasonMatchesPattern_unanchored:
  "reasonMatchesPattern lib [] reason
   \<and> (isLiteralPattern p \<longrightarrow>
        reasonMatchesPattern lib p reason = (\<exists>pre suf. reason = pre @ p @ suf))
   \<and> (Compile lib p = Inl err \<longrightarrow> \<not> reasonMatchesPattern lib p reason)"
  by (simp add: reasonMatchesPattern_literal isLiteralPattern_Nil Contains_iff [of _ p]
      Contains_Nil reasonMatchesPattern_error)

text \<open>
  At the pattern \<open>est\<close>: it is found inside \<open>Testing\<close>, its upper-case form is not, and
  the empty pattern accepts even the empty reason.
\<close>

theorem reasonMatchesPattern_unanchored_witness:
  "isLiteralPattern ''est'' \<and> reasonMatchesPattern plainLib ''est'' ''Testing''
   \<and> \<not> reasonMatchesPattern plainLib ''EST'' ''Testing''
   \<and> reasonMatchesPattern plainLib [] []"
proof -
  have l: "isLiteralPattern ''est''" "isLiteralPattern ''EST''"
    by (simp_all add: isLiteralPattern_def metaChars_def)
  have y: "\<exists>pre suf. ''Testing'' = pre @ ''est'' @ suf"
  proof (intro exI)
    show "''Testing'' = ''T'' @ ''est'' @ ''ing''" by simp
  qed
  have n: "\<not> (\<exists>pre suf. ''Testing'' = pre @ ''EST'' @ suf)"
    using Contains_iff [of "''Testing''" "''EST''"] by simp
  show ?thesis
    using reasonMatchesPattern_unanchored [of plainLib "''Testing''" "''est''"]
      reasonMatchesPattern_unanchored [of plainLib "''Testing''" "''EST''"]
      reasonMatchesPattern_unanchored [of plainLib "[]" "[]"] l y n
    by simp
qed

text \<open>
  The claim as stated fails: the empty pattern accepts the reason \<open>Testing\<close>, and the
  pattern \<open>est\<close> accepts it too although it matches only a part of the text.
\<close>

theorem reasonMatchesPattern_empty_pattern_counterexample:
  "reasonMatchesPattern plainLib [] ''Testing'' \<and> reasonMatchesPattern plainLib ''est'' ''Testing''"
  by (simp add: reasonMatchesPattern_def MatchString_def Compile_def isLiteralPattern_def
      metaChars_def)

text \<open>
  Claim C7. \<open>userOnlyOperation\<close> always ends in a verdict, an approval with status 200
  or a denial with status 403, whatever the pattern and the reason. When the pattern
  does not compile, \<open>regexp.MatchString\<close> reports no match next to its error, the
  pattern clause is false, and a regular user whose reason is required and present is
  approved exactly when the reason is in the allowed list or is the free text of a
  deletion.
\<close>

theorem userOnlyOperation_malformed_pattern:
  "Code (fst (userOnlyOperation lib node recorder operation user forbiddenUsers reason
            isReasonRequired doesReasonExist allowedReasons reasonPattern)) =
     (if Allowed (fst (userOnlyOperation lib node recorder operation user forbiddenUsers reason
            isReasonRequired doesReasonExist allowedReasons reasonPattern))
      then StatusOK else StatusForbidden)
   \<and> (Compile lib reasonPattern = Inl err \<longrightarrow>
        MatchString lib reasonPattern reason = (False, Some err)
      \<and> \<not> reasonMatchesPattern lib reasonPattern reason
      \<and> (\<not> isForbiddenUser user forbiddenUsers \<and> \<not> isServiceAccount user \<and> \<not> isNode user \<longrightarrow>
           Allowed (fst (userOnlyOperation lib node recorder operation user forbiddenUsers reason
                      True True allowedReasons reasonPattern)) =
             (reasonIsAllowed lib allowedReasons reason \<or> isReasonFreetext operation reason)))"
proof -
  have "Compile lib reasonPattern = Inl err \<Longrightarrow>
        MatchString lib reasonPattern reason = (False, Some err)"
    by (simp add: MatchString_def)
  moreover have "Compile lib reasonPattern = Inl err \<Longrightarrow>
        \<not> isForbiddenUser user forbiddenUsers \<and> \<not> isServiceAccount user \<and> \<not> isNode user \<Longrightarrow>
        Allowed (fst (userOnlyOperation lib node recorder operation user forbiddenUsers reason
                      True True allowedReasons reasonPattern)) =
             (reasonIsAllowed lib allowedReasons reason \<or> isReasonFreetext operation reason)"
    by (simp add: userOnlyOperation_regular reasonMatchesPattern_error response_defs)
  ultimately show ?thesis
    by (simp add: userOnlyOperation_Code reasonMatchesPattern_error)
qed

text \<open>
  With the pattern \<open>a(b\<close>, whose group is never closed: a cordon with the reason
  \<open>a(b\<close> is denied, one with the listed reason \<open>testing\<close> is approved, and a deletion with
  the reason \<open>a(b\<close> is approved as free text.
\<close>

theorem userOnlyOperation_malformed_pattern_witness:
  "Compile plainLib ''a(b'' = Inl ''error parsing regexp''
   \<and> MatchString plainLib ''a(b'' ''a(b'' = (False, Some ''error parsing regexp'')
   \<and> \<not> Allowed (fst (userOnlyOperation plainLib emptyNode [] Cordon ''alice'' ['''', systemAdminUser]
          ''a(b'' True True [''Testing''] ''a(b''))
   \<and> Allowed (fst (userOnlyOperation plainLib emptyNode [] Cordon ''alice'' ['''', systemAdminUser]
          ''testing'' True True [''Testing''] ''a(b''))
   \<and> Allowed (fst (userOnlyOperation plainLib emptyNode [] Delete ''alice'' ['''', systemAdminUser]
          ''a(b'' True True [''Testing''] ''a(b''))"
proof -
  have c: "Compile plainLib ''a(b'' = Inl ''error parsing regexp''"
    by (simp add: Compile_def isLiteralPattern_bad plainLib_def)
  have u: "\<not> isForbiddenUser ''alice'' ['''', systemAdminUser] \<and> \<not> isServiceAccount ''alice''
           \<and> \<not> isNode ''alice''"
    by (simp add: isServiceAccount_def isNode_def const_defs)
  have a: "\<not> reasonIsAllowed plainLib [''Testing''] ''a(b''"
    by simp
  have b: "reasonIsAllowed plainLib [''Testing''] ''testing''"
    by simp
  show ?thesis
    using userOnlyOperation_malformed_pattern
      [of plainLib emptyNode "[]" Cordon "''alice''" "['''', systemAdminUser]" "''a(b''" True True
          "[''Testing'']" "''a(b''" "''error parsing regexp''"]
      userOnlyOperation_malformed_pattern
      [of plainLib emptyNode "[]" Cordon "''alice''" "['''', systemAdminUser]" "''testing''" True True
          "[''Testing'']" "''a(b''" "''error parsing regexp''"]
      userOnlyOperation_malformed_pattern
      [of plainLib emptyNode "[]" Delete "''alice''" "['''', systemAdminUser]" "''a(b''" True True
          "[''Testing'']" "''a(b''" "''error parsing regexp''"]
      c u a b
    by (simp add: isReasonFreetext_def Delete_def Cordon_def)
qed

subsection \<open>Service accounts and node agents\<close>

text \<open>
  Claim C2, as the code has it. A user with the service account prefix or the node
  prefix who is not forbidden is approved by \<open>userOnlyOperation\<close> for every operation
  and whatever the reason arguments are. Through \<open>Handle\<close>, once the config map is read
  and the objects decode, every deletion and every update by such a user is approved;
  a creation never reaches \<open>userOnlyOperation\<close> and is approved exactly when the new
  node has no reason annotation.
\<close>

theorem trusted_identity_allowed:
  "((isServiceAccount user \<or> isNode user) \<and> \<not> isForbiddenUser user forbiddenUsers \<longrightarrow>
      Allowed (fst (userOnlyOperation lib node recorder operation user forbiddenUsers reason
         isReasonRequired doesReasonExist allowedReasons reasonPattern)))
   \<and> ((isServiceAccount (Username req) \<or> isNode (Username req))
       \<and> \<not> isForbiddenUser (Username req)
             (Split (Getenv env ForbiddenUsersEnv) (CHR '','') @ [systemAdminUser])
       \<and> Client n (cmNamespace, cmName) = Inr cm \<longrightarrow>
        (Operation req = admissionv1_Delete \<and> Decoder n (OldObject req) emptyNode = Some obj \<longrightarrow>
           Allowed (fst (Handle lib env n req)))
      \<and> (Operation req \<noteq> admissionv1_Delete \<and> Operation req \<noteq> admissionv1_Create
           \<and> Decoder n (OldObject req) emptyNode = Some before
           \<and> Decoder n (Object req) before = Some obj \<longrightarrow>
           Allowed (fst (Handle lib env n req)))
      \<and> (Operation req = admissionv1_Create \<and> Decoder n (Object req) emptyNode = Some obj \<longrightarrow>
           Allowed (fst (Handle lib env n req)) = (Annotations obj reasonAnnotation = None)))"
proof (intro conjI impI)
  assume "(isServiceAccount user \<or> isNode user) \<and> \<not> isForbiddenUser user forbiddenUsers"
  then show "Allowed (fst (userOnlyOperation lib node recorder operation user forbiddenUsers
      reason isReasonRequired doesReasonExist allowedReasons reasonPattern))"
    by (simp add: userOnlyOperation_trusted)
next
  assume u: "(isServiceAccount (Username req) \<or> isNode (Username req))
       \<and> \<not> isForbiddenUser (Username req)
             (Split (Getenv env ForbiddenUsersEnv) (CHR '','') @ [systemAdminUser])
       \<and> Client n (cmNamespace, cmName) = Inr cm"
    and d: "Operation req = admissionv1_Delete \<and> Decoder n (OldObject req) emptyNode = Some obj"
  from u have g: "getAllowedReasonsAndPattern n cmNamespace =
     Inr (Split (fst (lookupOk (Data cm) allowedReasonsKey)) (CHR '',''),
          fst (lookupOk (Data cm) reasonRegexPatternKey))"
    by (simp add: getAllowedReasonsAndPattern_ok)
  show "Allowed (fst (Handle lib env n req))"
    using u d by (simp add: Handle_Delete [OF g] userOnlyOperation_trusted)
next
  assume u: "(isServiceAccount (Username req) \<or> isNode (Username req))
       \<and> \<not> isForbiddenUser (Username req)
             (Split (Getenv env ForbiddenUsersEnv) (CHR '','') @ [systemAdminUser])
       \<and> Client n (cmNamespace, cmName) = Inr cm"
    and d: "Operation req \<noteq> admissionv1_Delete \<and> Operation req \<noteq> admissionv1_Create
           \<and> Decoder n (OldObject req) emptyNode = Some before
           \<and> Decoder n (Object req) before = Some obj"
  from u have g: "getAllowedReasonsAndPattern n cmNamespace =
     Inr (Split (fst (lookupOk (Data cm) allowedReasonsKey)) (CHR '',''),
          fst (lookupOk (Data cm) reasonRegexPatternKey))"
    by (simp add: getAllowedReasonsAndPattern_ok)
  show "Allowed (fst (Handle lib env n req))"
    using u d by (simp add: Handle_update [OF g] userOnlyOperation_trusted response_defs)
next
  assume u: "(isServiceAccount (Username req) \<or> isNode (Username req))
       \<and> \<not> isForbiddenUser (Username req)
             (Split (Getenv env ForbiddenUsersEnv) (CHR '','') @ [systemAdminUser])
       \<and> Client n (cmNamespace, cmName) = Inr cm"
    and d: "Operation req = admissionv1_Create \<and> Decoder n (Object req) emptyNode = Some obj"
  from u have g: "getAllowedReasonsAndPattern n cmNamespace =
     Inr (Split (fst (lookupOk (Data cm) allowedReasonsKey)) (CHR '',''),
          fst (lookupOk (Data cm) reasonRegexPatternKey))"
    by (simp add: getAllowedReasonsAndPattern_ok)
  show "Allowed (fst (Handle lib env n req)) = (Annotations obj reasonAnnotation = None)"
    using d by (simp add: Handle_Create [OF g] validateNoReason_Allowed response_defs)
qed

text \<open>
  A service account deleting a node without reason, a node agent cordoning and creating
  one without reason are approved; the node agent creating a node that carries a reason
  is not.
\<close>

theorem trusted_identity_allowed_witness:
  "Allowed (fst (Handle plainLib Map.empty (validatorWith Map.empty)
      (deleteRequest ''system:serviceaccount:kube-system:node-controller'' (rawNode [] None))))
   \<and> Allowed (fst (Handle plainLib Map.empty (validatorWith Map.empty)
      (updateRequest ''system:node:worker-1'' (rawNode [] None) (rawNode [] (Some True)))))
   \<and> Allowed (fst (Handle plainLib Map.empty (validatorWith Map.empty)
      (createRequest ''system:node:worker-1'' (rawNode [] None))))
   \<and> \<not> Allowed (fst (Handle plainLib Map.empty (validatorWith Map.empty)
      (createRequest ''system:node:worker-1'' (rawNode [(reasonAnnotation, ''Testing'')] None))))"
proof -
  let ?sa = "''system:serviceaccount:kube-system:node-controller''"
  let ?na = "''system:node:worker-1''"
  let ?fs = "Split (Getenv Map.empty ForbiddenUsersEnv) (CHR '','') @ [systemAdminUser]"
  have sa: "isServiceAccount ?sa" "\<not> isForbiddenUser ?sa ?fs"
    by (simp_all add: isServiceAccount_def Getenv_def const_defs)
  have na: "isNode ?na" "\<not> isForbiddenUser ?na ?fs"
    by (simp_all add: isNode_def Getenv_def const_defs)
  have cl: "Client (validatorWith Map.empty) (cmNamespace, cmName) = Inr \<lparr>Data = Map.empty\<rparr>"
    by (simp add: validatorWith_def)
  have d1: "Decoder (validatorWith Map.empty) (rawNode [] None) emptyNode = Some emptyNode"
    by (simp add: sample_defs)
  have d2: "Decoder (validatorWith Map.empty) (rawNode [] (Some True)) emptyNode
              = Some \<lparr>Annotations = Map.empty, Spec = \<lparr>Unschedulable = True\<rparr>\<rparr>"
    by (simp add: sample_defs)
  have d3: "Decoder (validatorWith Map.empty) (rawNode [(reasonAnnotation, ''Testing'')] None) emptyNode
              = Some \<lparr>Annotations = [reasonAnnotation \<mapsto> ''Testing''], Spec = \<lparr>Unschedulable = False\<rparr>\<rparr>"
    by (simp add: sample_defs)
  have t1: "Allowed (fst (Handle plainLib Map.empty (validatorWith Map.empty)
      (deleteRequest ?sa (rawNode [] None))))"
    using trusted_identity_allowed
      [where req = "deleteRequest ?sa (rawNode [] None)" and env = Map.empty
         and n = "validatorWith Map.empty" and cm = "\<lparr>Data = Map.empty\<rparr>" and obj = emptyNode
         and lib = plainLib]
      sa cl d1
    by (simp add: deleteRequest_def)
  have t2: "Allowed (fst (Handle plainLib Map.empty (validatorWith Map.empty)
      (updateRequest ?na (rawNode [] None) (rawNode [] (Some True)))))"
    using trusted_identity_allowed
      [where req = "updateRequest ?na (rawNode [] None) (rawNode [] (Some True))" and env = Map.empty
         and n = "validatorWith Map.empty" and cm = "\<lparr>Data = Map.empty\<rparr>" and before = emptyNode
         and obj = "\<lparr>Annotations = Map.empty, Spec = \<lparr>Unschedulable = True\<rparr>\<rparr>"
         and lib = plainLib]
      na cl d1 d2
    by (simp add: updateRequest_def admissionv1_Update_def admissionv1_Delete_def
        admissionv1_Create_def)
  have t3: "Allowed (fst (Handle plainLib Map.empty (validatorWith Map.empty)
      (createRequest ?na (rawNode [] None))))"
    using trusted_identity_allowed
      [where req = "createRequest ?na (rawNode [] None)" and env = Map.empty
         and n = "validatorWith Map.empty" and cm = "\<lparr>Data = Map.empty\<rparr>" and obj = emptyNode
         and lib = plainLib]
      na cl d1
    by (simp add: createRequest_def emptyNode_def)
  have t4: "\<not> Allowed (fst (Handle plainLib Map.empty (validatorWith Map.empty)
      (createRequest ?na (rawNode [(reasonAnnotation, ''Testing'')] None))))"
    using trusted_identity_allowed
      [where req = "createRequest ?na (rawNode [(reasonAnnotation, ''Testing'')] None)"
         and env = Map.empty
         and n = "validatorWith Map.empty" and cm = "\<lparr>Data = Map.empty\<rparr>"
         and obj = "\<lparr>Annotations = [reasonAnnotation \<mapsto> ''Testing''], Spec = \<lparr>Unschedulable = False\<rparr>\<rparr>"
         and lib = plainLib]
      na cl d3
    by (simp add: createRequest_def)
  from t1 t2 t3 t4 show ?thesis by simp
qed

text \<open>
  The claim as stated fails for \<open>Create\<close>: a service account that is not forbidden is
  denied the creation of a node that carries a reason annotation.
\<close>

theorem trusted_Create_with_reason_counterexample:
  "isServiceAccount ''system:serviceaccount:kube-system:node-controller''
   \<and> \<not> isForbiddenUser ''system:serviceaccount:kube-system:node-controller''
         (Split (Getenv Map.empty ForbiddenUsersEnv) (CHR '','') @ [systemAdminUser])
   \<and> fst (Handle plainLib Map.empty (validatorWith Map.empty)
        (createRequest ''system:serviceaccount:kube-system:node-controller''
           (rawNode [(reasonAnnotation, ''Testing'')] None)))
     = admission_Denied (''Don't forget to remove the '' @ [CHR 0x22] @ ''node.dana.io/reason''
         @ [CHR 0x22] @ '' annotation from the node'')"
  by (simp add: Handle_def getAllowedReasonsAndPattern_def validatorWith_def decodeJSON_def
      rawNode_def lookupOk_def emptyNode_def Getenv_def const_defs validateNoReason_def
      response_defs plainLib_def isServiceAccount_def createRequest_def)

subsection \<open>Forbidden users\<close>

text \<open>
  Claim C3, as the code has it. The list of forbidden users that \<open>Handle\<close> builds always
  holds the built-in administrator. A forbidden user is denied by \<open>userOnlyOperation\<close>
  with status 403 and without an event, for every operation and whatever the reason
  arguments are. Through \<open>Handle\<close>, once the config map is read and the objects decode,
  a forbidden user is denied every deletion and every update that turns a schedulable
  node into an unschedulable one; a creation never reaches \<open>userOnlyOperation\<close> and is
  approved exactly when the new node has no reason annotation.
\<close>

theorem forbidden_identity_denied:
  "isForbiddenUser systemAdminUser
     (Split (Getenv env ForbiddenUsersEnv) (CHR '','') @ [systemAdminUser])
   \<and> (isForbiddenUser user forbiddenUsers \<longrightarrow>
        \<not> Allowed (fst (userOnlyOperation lib node recorder operation user forbiddenUsers reason
             isReasonRequired doesReasonExist allowedReasons reasonPattern))
      \<and> Code (fst (userOnlyOperation lib node recorder operation user forbiddenUsers reason
             isReasonRequired doesReasonExist allowedReasons reasonPattern)) = StatusForbidden
      \<and> snd (userOnlyOperation lib node recorder operation user forbiddenUsers reason
             isReasonRequired doesReasonExist allowedReasons reasonPattern) = recorder)
   \<and> (isForbiddenUser (Username req)
          (Split (Getenv env ForbiddenUsersEnv) (CHR '','') @ [systemAdminUser])
       \<and> Client n (cmNamespace, cmName) = Inr cm \<longrightarrow>
        (Operation req = admissionv1_Delete \<and> Decoder n (OldObject req) emptyNode = Some obj \<longrightarrow>
           \<not> Allowed (fst (Handle lib env n req))
           \<and> Code (fst (Handle lib env n req)) = StatusForbidden)
      \<and> (Operation req \<noteq> admissionv1_Delete \<and> Operation req \<noteq> admissionv1_Create
           \<and> Decoder n (OldObject req) emptyNode = Some before
           \<and> Decoder n (Object req) before = Some obj
           \<and> \<not> Unschedulable (Spec before) \<and> Unschedulable (Spec obj) \<longrightarrow>
           \<not> Allowed (fst (Handle lib env n req))
           \<and> Code (fst (Handle lib env n req)) = StatusForbidden)
      \<and> (Operation req = admissionv1_Create \<and> Decoder n (Object req) emptyNode = Some obj \<longrightarrow>
           Allowed (fst (Handle lib env n req)) = (Annotations obj reasonAnnotation = None)))"
  by (simp add: systemAdminUser_forbidden userOnlyOperation_forbidden response_defs
      Handle_Delete_forbidden Handle_Cordon_forbidden Handle_Create_any)

text \<open>
  With the users \<open>kubeadmin\<close> and \<open>root\<close> forbidden by the environment: \<open>root\<close> is
  denied a deletion with a listed reason, the administrator a cordon with a listed
  reason, and \<open>root\<close> may create a node that has no reason annotation.
\<close>

theorem forbidden_identity_denied_witness:
  "isForbiddenUser systemAdminUser
     (Split (Getenv [ForbiddenUsersEnv \<mapsto> ''kubeadmin,root''] ForbiddenUsersEnv) (CHR '','')
        @ [systemAdminUser])
   \<and> \<not> Allowed (fst (Handle plainLib [ForbiddenUsersEnv \<mapsto> ''kubeadmin,root'']
        (validatorWith [allowedReasonsKey \<mapsto> ''Testing''])
        (deleteRequest ''root'' (rawNode [(reasonAnnotation, ''Testing'')] None))))
   \<and> \<not> Allowed (fst (Handle plainLib [ForbiddenUsersEnv \<mapsto> ''kubeadmin,root'']
        (validatorWith [allowedReasonsKey \<mapsto> ''Testing''])
        (updateRequest systemAdminUser (rawNode [] None)
           (rawNode [(reasonAnnotation, ''Testing'')] (Some True)))))
   \<and> Allowed (fst (Handle plainLib [ForbiddenUsersEnv \<mapsto> ''kubeadmin,root'']
        (validatorWith [allowedReasonsKey \<mapsto> ''Testing''])
        (createRequest ''root'' (rawNode [] None))))"
proof -
  let ?env = "[ForbiddenUsersEnv \<mapsto> ''kubeadmin,root'']"
  let ?n = "validatorWith [allowedReasonsKey \<mapsto> ''Testing'']"
  let ?fs = "Split (Getenv ?env ForbiddenUsersEnv) (CHR '','') @ [systemAdminUser]"
  let ?r = "\<lparr>Annotations = [reasonAnnotation \<mapsto> ''Testing''], Spec = \<lparr>Unschedulable = False\<rparr>\<rparr>"
  let ?c = "\<lparr>Annotations = [reasonAnnotation \<mapsto> ''Testing''], Spec = \<lparr>Unschedulable = True\<rparr>\<rparr>"
  have fs: "?fs = [''kubeadmin'', ''root'', systemAdminUser]"
    by (simp add: Getenv_def)
  have f: "isForbiddenUser ''root'' ?fs" "isForbiddenUser systemAdminUser ?fs"
    unfolding fs by (simp_all add: systemAdminUser_def)
  have cl: "Client ?n (cmNamespace, cmName) = Inr \<lparr>Data = [allowedReasonsKey \<mapsto> ''Testing'']\<rparr>"
    by (simp add: validatorWith_def)
  have d0: "Decoder ?n (rawNode [] None) emptyNode = Some emptyNode"
    by (simp add: sample_defs)
  have d1: "Decoder ?n (rawNode [(reasonAnnotation, ''Testing'')] None) emptyNode = Some ?r"
    by (simp add: sample_defs)
  have d2: "Decoder ?n (rawNode [(reasonAnnotation, ''Testing'')] (Some True)) emptyNode = Some ?c"
    by (simp add: sample_defs)
  have u: "admissionv1_Update \<noteq> admissionv1_Delete" "admissionv1_Update \<noteq> admissionv1_Create"
    by (simp_all add: const_defs)
  have t1: "\<not> Allowed (fst (Handle plainLib ?env ?n
        (deleteRequest ''root'' (rawNode [(reasonAnnotation, ''Testing'')] None))))"
    using forbidden_identity_denied
      [where req = "deleteRequest ''root'' (rawNode [(reasonAnnotation, ''Testing'')] None)"
         and env = ?env and n = ?n and cm = "\<lparr>Data = [allowedReasonsKey \<mapsto> ''Testing'']\<rparr>"
         and obj = ?r and lib = plainLib]
      f(1) cl d1
    by (simp add: deleteRequest_def)
  have t2: "\<not> Allowed (fst (Handle plainLib ?env ?n
        (updateRequest systemAdminUser (rawNode [] None)
           (rawNode [(reasonAnnotation, ''Testing'')] (Some True)))))"
    using forbidden_identity_denied
      [where req = "updateRequest systemAdminUser (rawNode [] None)
           (rawNode [(reasonAnnotation, ''Testing'')] (Some True))"
         and env = ?env and n = ?n and cm = "\<lparr>Data = [allowedReasonsKey \<mapsto> ''Testing'']\<rparr>"
         and before = emptyNode and obj = ?c and lib = plainLib]
      f(2) cl d0 d2 u
    by (simp add: updateRequest_def emptyNode_def)
  have t3: "Allowed (fst (Handle plainLib ?env ?n (createRequest ''root'' (rawNode [] None))))"
    using forbidden_identity_denied
      [where req = "createRequest ''root'' (rawNode [] None)"
         and env = ?env and n = ?n and cm = "\<lparr>Data = [allowedReasonsKey \<mapsto> ''Testing'']\<rparr>"
         and obj = emptyNode and lib = plainLib]
      f(1) cl d0
    by (simp add: createRequest_def emptyNode_def)
  from f(2) t1 t2 t3 show ?thesis by simp
qed

text \<open>
  The claim as stated fails for \<open>Create\<close>: the built-in administrator, who is forbidden,
  creates a node without reason annotation and is approved, and the event is recorded.
\<close>

theorem forbidden_Create_counterexample:
  "isForbiddenUser systemAdminUser
     (Split (Getenv Map.empty ForbiddenUsersEnv) (CHR '','') @ [systemAdminUser])
   \<and> Handle plainLib Map.empty (validatorWith Map.empty)
        (createRequest systemAdminUser (rawNode [] None))
     = (admission_Allowed ''Operation approved'',
        [\<lparr>evObject = emptyNode, evType = ''Normal'', evReason = ''NodeOperation: CREATE'',
          evMessage = ''system:admin: ''\<rparr>])"
  by (simp add: Handle_def getAllowedReasonsAndPattern_def lookupOk_def Getenv_def const_defs
      validateNoReason_def response_defs createNodeEvent_def sample_defs)

text \<open>
  When the variable of forbidden users is unset or empty, splitting its value at the
  commas gives the list of one empty string, so the user with the empty name is
  forbidden: \<open>userOnlyOperation\<close> denies it every operation, and \<open>Handle\<close> denies it every
  deletion and every update that turns a schedulable node into an unschedulable one.
\<close>

theorem empty_forbidden_env_forbids_empty_user:
  "env ForbiddenUsersEnv = None \<or> env ForbiddenUsersEnv = Some [] \<Longrightarrow>
   Split (Getenv env ForbiddenUsersEnv) (CHR '','') = [[]]
   \<and> isForbiddenUser [] (Split (Getenv env ForbiddenUsersEnv) (CHR '','') @ [systemAdminUser])
   \<and> \<not> Allowed (fst (userOnlyOperation lib node recorder operation []
          (Split (Getenv env ForbiddenUsersEnv) (CHR '','') @ [systemAdminUser]) reason
          isReasonRequired doesReasonExist allowedReasons reasonPattern))
   \<and> Code (fst (userOnlyOperation lib node recorder operation []
          (Split (Getenv env ForbiddenUsersEnv) (CHR '','') @ [systemAdminUser]) reason
          isReasonRequired doesReasonExist allowedReasons reasonPattern)) = StatusForbidden
   \<and> (Username req = [] \<and> Client n (cmNamespace, cmName) = Inr cm \<longrightarrow>
        (Operation req = admissionv1_Delete \<and> Decoder n (OldObject req) emptyNode = Some obj \<longrightarrow>
           \<not> Allowed (fst (Handle lib env n req))
           \<and> Code (fst (Handle lib env n req)) = StatusForbidden)
      \<and> (Operation req \<noteq> admissionv1_Delete \<and> Operation req \<noteq> admissionv1_Create
           \<and> Decoder n (OldObject req) emptyNode = Some before
           \<and> Decoder n (Object req) before = Some obj
           \<and> \<not> Unschedulable (Spec before) \<and> Unschedulable (Spec obj) \<longrightarrow>
           \<not> Allowed (fst (Handle lib env n req))
           \<and> Code (fst (Handle lib env n req)) = StatusForbidden))"
proof -
  assume e: "env ForbiddenUsersEnv = None \<or> env ForbiddenUsersEnv = Some []"
  let ?fs = "Split (Getenv env ForbiddenUsersEnv) (CHR '','') @ [systemAdminUser]"
  have g: "Getenv env ForbiddenUsersEnv = []"
    using e by (rule Getenv_unset_or_empty)
  have s: "Split (Getenv env ForbiddenUsersEnv) (CHR '','') = [[]]"
    by (simp add: g)
  have f: "isForbiddenUser [] ?fs"
    by (simp add: s)
  have u: "\<not> Allowed (fst (userOnlyOperation lib node recorder operation [] ?fs reason
          isReasonRequired doesReasonExist allowedReasons reasonPattern))
     \<and> Code (fst (userOnlyOperation lib node recorder operation [] ?fs reason
          isReasonRequired doesReasonExist allowedReasons reasonPattern)) = StatusForbidden"
    by (simp add: userOnlyOperation_forbidden [OF f] response_defs)
  have d: "Username req = [] \<and> Client n (cmNamespace, cmName) = Inr cm \<Longrightarrow>
        Operation req = admissionv1_Delete \<and> Decoder n (OldObject req) emptyNode = Some obj \<Longrightarrow>
           \<not> Allowed (fst (Handle lib env n req))
           \<and> Code (fst (Handle lib env n req)) = StatusForbidden"
    using f Handle_Delete_forbidden [of n cm req env obj lib] by simp
  have c: "Username req = [] \<and> Client n (cmNamespace, cmName) = Inr cm \<Longrightarrow>
        Operation req \<noteq> admissionv1_Delete \<and> Operation req \<noteq> admissionv1_Create
           \<and> Decoder n (OldObject req) emptyNode = Some before
           \<and> Decoder n (Object req) before = Some obj
           \<and> \<not> Unschedulable (Spec before) \<and> Unschedulable (Spec obj) \<Longrightarrow>
           \<not> Allowed (fst (Handle lib env n req))
           \<and> Code (fst (Handle lib env n req)) = StatusForbidden"
    using f Handle_Cordon_forbidden [of n cm req env before obj lib] by simp
  from s f u d c show ?thesis by blast
qed

text \<open>
  With an empty environment: the user with the empty name is denied a deletion and a
  cordon that carry a listed reason, and \<open>userOnlyOperation\<close> denies it an uncordon.
\<close>

theorem empty_forbidden_env_forbids_empty_user_witness:
  "Split (Getenv Map.empty ForbiddenUsersEnv) (CHR '','') = [[]]
   \<and> \<not> Allowed (fst (Handle plainLib Map.empty (validatorWith Map.empty)
          (deleteRequest [] (rawNode [(reasonAnnotation, ''Testing'')] None))))
   \<and> \<not> Allowed (fst (Handle plainLib Map.empty (validatorWith Map.empty)
          (updateRequest [] (rawNode [] None)
             (rawNode [(reasonAnnotation, ''Testing'')] (Some True)))))
   \<and> \<not> Allowed (fst (userOnlyOperation plainLib emptyNode [] Uncordon []
          (Split (Getenv Map.empty ForbiddenUsersEnv) (CHR '','') @ [systemAdminUser]) []
          False False [[]] []))"
proof -
  let ?n = "validatorWith Map.empty"
  let ?env = "Map.empty :: string \<rightharpoonup> string"
  let ?r = "\<lparr>Annotations = [reasonAnnotation \<mapsto> ''Testing''], Spec = \<lparr>Unschedulable = False\<rparr>\<rparr>"
  let ?c = "\<lparr>Annotations = [reasonAnnotation \<mapsto> ''Testing''], Spec = \<lparr>Unschedulable = True\<rparr>\<rparr>"
  have e: "?env ForbiddenUsersEnv = None \<or> ?env ForbiddenUsersEnv = Some []"
    by simp
  have cl: "Client ?n (cmNamespace, cmName) = Inr \<lparr>Data = Map.empty\<rparr>"
    by (simp add: validatorWith_def)
  have d0: "Decoder ?n (rawNode [] None) emptyNode = Some emptyNode"
    by (simp add: sample_defs)
  have d1: "Decoder ?n (rawNode [(reasonAnnotation, ''Testing'')] None) emptyNode = Some ?r"
    by (simp add: sample_defs)
  have d2: "Decoder ?n (rawNode [(reasonAnnotation, ''Testing'')] (Some True)) emptyNode = Some ?c"
    by (simp add: sample_defs)
  have u: "admissionv1_Update \<noteq> admissionv1_Delete" "admissionv1_Update \<noteq> admissionv1_Create"
    by (simp_all add: const_defs)
  have t1: "\<not> Allowed (fst (Handle plainLib ?env ?n
          (deleteRequest [] (rawNode [(reasonAnnotation, ''Testing'')] None))))"
    using empty_forbidden_env_forbids_empty_user
      [OF e, where req = "deleteRequest [] (rawNode [(reasonAnnotation, ''Testing'')] None)"
         and n = ?n and cm = "\<lparr>Data = Map.empty\<rparr>" and obj = ?r and lib = plainLib]
      cl d1
    by (simp add: deleteRequest_def)
  have t2: "\<not> Allowed (fst (Handle plainLib ?env ?n
          (updateRequest [] (rawNode [] None)
             (rawNode [(reasonAnnotation, ''Testing'')] (Some True)))))"
    using empty_forbidden_env_forbids_empty_user
      [OF e, where req = "updateRequest [] (rawNode [] None)
             (rawNode [(reasonAnnotation, ''Testing'')] (Some True))"
         and n = ?n and cm = "\<lparr>Data = Map.empty\<rparr>" and before = emptyNode and obj = ?c
         and lib = plainLib]
      cl d0 d2 u
    by (simp add: updateRequest_def emptyNode_def)
  have t3: "Split (Getenv Map.empty ForbiddenUsersEnv) (CHR '','') = [[]]
     \<and> \<not> Allowed (fst (userOnlyOperation plainLib emptyNode [] Uncordon []
          (Split (Getenv Map.empty ForbiddenUsersEnv) (CHR '','') @ [systemAdminUser]) []
          False False [[]] []))"
    using empty_forbidden_env_forbids_empty_user
      [OF e, where lib = plainLib and node = emptyNode and recorder = "[]" and operation = Uncordon
         and reason = "[]" and isReasonRequired = False and doesReasonExist = False
         and allowedReasons = "[[]]" and reasonPattern = "[]"
         and req = "deleteRequest [] None" and n = ?n and cm = "\<lparr>Data = Map.empty\<rparr>"
         and obj = emptyNode and before = emptyNode]
    by blast
  from t1 t2 t3 show ?thesis by blast
qed



subsection \<open>The empty configuration\<close>

text \<open>
  Claim C5, as the code has it. When the config map has no allowed reasons and no
  pattern (each key absent or empty), the list of allowed reasons is the list of one
  empty string and the pattern is empty. For a regular user, neither forbidden nor a
  service account nor a node agent, a deletion of a node that carries a reason
  annotation is approved, and so is an update that turns a schedulable node into an
  unschedulable one and carries a reason annotation, whatever the text of the
  annotation: the empty pattern matches every reason.
\<close>

theorem empty_config_accepts_every_reason:
  assumes "Client n (cmNamespace, cmName) = Inr cm"
    and "Data cm allowedReasonsKey = None \<or> Data cm allowedReasonsKey = Some []"
    and "Data cm reasonRegexPatternKey = None \<or> Data cm reasonRegexPatternKey = Some []"
    and "\<not> isForbiddenUser (Username req)
            (Split (Getenv env ForbiddenUsersEnv) (CHR '','') @ [systemAdminUser])"
    and "\<not> isServiceAccount (Username req)" and "\<not> isNode (Username req)"
  shows "getAllowedReasonsAndPattern n cmNamespace = Inr ([[]], [])
     \<and> (Operation req = admissionv1_Delete \<and> Decoder n (OldObject req) emptyNode = Some obj
          \<and> Annotations obj reasonAnnotation = Some reason \<longrightarrow>
        fst (Handle lib env n req) = admission_Allowed ''delete operation has been approved'')
     \<and> (Operation req \<noteq> admissionv1_Delete \<and> Operation req \<noteq> admissionv1_Create
          \<and> Decoder n (OldObject req) emptyNode = Some before
          \<and> Decoder n (Object req) before = Some obj
          \<and> \<not> Unschedulable (Spec before) \<and> Unschedulable (Spec obj)
          \<and> Annotations obj reasonAnnotation = Some reason \<longrightarrow>
        fst (Handle lib env n req) = admission_Allowed ''cordon operation has been approved'')"
proof -
  have g: "getAllowedReasonsAndPattern n cmNamespace = Inr ([[]], [])"
    using assms(1-3) by (rule getAllowedReasonsAndPattern_empty)
  show ?thesis
    using assms(4-6)
    by (auto simp add: g Handle_Delete [OF g] Handle_update [OF g] lookupOk_def
        userOnlyOperation_empty_pattern Delete_def Cordon_def)
qed

text \<open>
  A deletion with the reason \<open>for fun\<close> under a config map whose two keys are empty, and
  a cordon with an empty reason under a config map without the keys.
\<close>

theorem empty_config_accepts_every_reason_witness:
  "fst (Handle plainLib Map.empty
          (validatorWith [allowedReasonsKey \<mapsto> [], reasonRegexPatternKey \<mapsto> []])
          (deleteRequest ''alice'' (rawNode [(reasonAnnotation, ''for fun'')] None)))
     = admission_Allowed ''delete operation has been approved''
   \<and> fst (Handle plainLib Map.empty (validatorWith Map.empty)
          (updateRequest ''alice'' (rawNode [] None) (rawNode [(reasonAnnotation, [])] (Some True))))
     = admission_Allowed ''cordon operation has been approved''"
proof -
  let ?cm = "[allowedReasonsKey \<mapsto> [], reasonRegexPatternKey \<mapsto> []]"
  let ?env = "Map.empty :: string \<rightharpoonup> string"
  let ?r = "\<lparr>Annotations = [reasonAnnotation \<mapsto> ''for fun''], Spec = \<lparr>Unschedulable = False\<rparr>\<rparr>"
  let ?c = "\<lparr>Annotations = [reasonAnnotation \<mapsto> []], Spec = \<lparr>Unschedulable = True\<rparr>\<rparr>"
  have cl1: "Client (validatorWith ?cm) (cmNamespace, cmName) = Inr \<lparr>Data = ?cm\<rparr>"
    and cl2: "Client (validatorWith Map.empty) (cmNamespace, cmName) = Inr \<lparr>Data = Map.empty\<rparr>"
    by (simp_all add: validatorWith_def)
  have k1: "Data \<lparr>Data = ?cm\<rparr> allowedReasonsKey = None \<or> Data \<lparr>Data = ?cm\<rparr> allowedReasonsKey = Some []"
    and k2: "Data \<lparr>Data = ?cm\<rparr> reasonRegexPatternKey = None
             \<or> Data \<lparr>Data = ?cm\<rparr> reasonRegexPatternKey = Some []"
    by (simp_all add: const_defs)
  have k3: "Data \<lparr>Data = Map.empty\<rparr> allowedReasonsKey = None
             \<or> Data \<lparr>Data = Map.empty\<rparr> allowedReasonsKey = Some []"
    and k4: "Data \<lparr>Data = Map.empty\<rparr> reasonRegexPatternKey = None
             \<or> Data \<lparr>Data = Map.empty\<rparr> reasonRegexPatternKey = Some []"
    by simp_all
  have a: "\<not> isForbiddenUser ''alice''
            (Split (Getenv ?env ForbiddenUsersEnv) (CHR '','') @ [systemAdminUser])"
      "\<not> isServiceAccount ''alice''" "\<not> isNode ''alice''"
    by (simp_all add: Getenv_def isServiceAccount_def isNode_def const_defs)
  have d0: "Decoder (validatorWith Map.empty) (rawNode [] None) emptyNode = Some emptyNode"
    by (simp add: sample_defs)
  have d1: "Decoder (validatorWith ?cm) (rawNode [(reasonAnnotation, ''for fun'')] None) emptyNode
             = Some ?r"
    by (simp add: sample_defs)
  have d2: "Decoder (validatorWith Map.empty) (rawNode [(reasonAnnotation, [])] (Some True)) emptyNode
             = Some ?c"
    by (simp add: sample_defs)
  have u: "admissionv1_Update \<noteq> admissionv1_Delete" "admissionv1_Update \<noteq> admissionv1_Create"
    by (simp_all add: const_defs)
  have t1: "fst (Handle plainLib ?env (validatorWith ?cm)
          (deleteRequest ''alice'' (rawNode [(reasonAnnotation, ''for fun'')] None)))
     = admission_Allowed ''delete operation has been approved''"
    using empty_config_accepts_every_reason
      [where req = "deleteRequest ''alice'' (rawNode [(reasonAnnotation, ''for fun'')] None)"
         and env = ?env and n = "validatorWith ?cm" and cm = "\<lparr>Data = ?cm\<rparr>" and obj = ?r
         and lib = plainLib and reason = "''for fun''", OF cl1 k1 k2]
      a d1
    by (simp add: deleteRequest_def)
  have t2: "fst (Handle plainLib ?env (validatorWith Map.empty)
          (updateRequest ''alice'' (rawNode [] None) (rawNode [(reasonAnnotation, [])] (Some True))))
     = admission_Allowed ''cordon operation has been approved''"
    using empty_config_accepts_every_reason
      [where req = "updateRequest ''alice'' (rawNode [] None)
                      (rawNode [(reasonAnnotation, [])] (Some True))"
         and env = ?env and n = "validatorWith Map.empty" and cm = "\<lparr>Data = Map.empty\<rparr>"
         and before = emptyNode and obj = ?c and lib = plainLib and reason = "[]", OF cl2 k3 k4]
      a d0 d2 u
    by (simp add: updateRequest_def emptyNode_def)
  from t1 t2 show ?thesis by simp
qed

text \<open>
  The claim as stated fails for \<open>Cordon\<close>: with both keys empty, the regular user
  \<open>alice\<close> cordons a node with the reason \<open>for fun\<close> and is approved.
\<close>

theorem Cordon_empty_config_counterexample:
  "Handle plainLib Map.empty
     (validatorWith [allowedReasonsKey \<mapsto> [], reasonRegexPatternKey \<mapsto> []])
     (updateRequest ''alice'' (rawNode [] None) (rawNode [(reasonAnnotation, ''for fun'')] (Some True)))
   = (admission_Allowed ''cordon operation has been approved'',
      [\<lparr>evObject = emptyNode, evType = ''Normal'', evReason = ''NodeOperation: cordon'',
        evMessage = ''alice: for fun''\<rparr>])"
  by (simp add: Handle_def getAllowedReasonsAndPattern_def lookupOk_def Getenv_def const_defs
      userOnlyOperation_def isServiceAccount_def isNode_def reasonMatchesPattern_def
      MatchString_def Compile_def isLiteralPattern_def
      response_defs createNodeEvent_def sample_defs)

subsection \<open>The operation of an update\<close>

text \<open>
  Claim C1, as the code has it. For an update whose two objects decode, the old one into
  the zero node and the new one into the result, the branch depends on the node decoded
  last only: when it is unschedulable the request is handled as a \<open>Cordon\<close>, whatever
  the old object says, and otherwise it is approved as \<open>Node was updated\<close>. The variable
  \<open>oldNode\<close> is the zero node in the conditions of the \<open>switch\<close>, so the case of
  \<open>Uncordon\<close> is never taken, with any decoder.
\<close>

theorem Handle_update_operation:
  assumes "Client n (cmNamespace, cmName) = Inr cm"
    and "Operation req \<noteq> admissionv1_Delete" and "Operation req \<noteq> admissionv1_Create"
    and "Decoder n (OldObject req) emptyNode = Some before"
    and "Decoder n (Object req) before = Some obj"
  shows "Handle lib env n req =
     (if Unschedulable (Spec obj)
      then userOnlyOperation lib emptyNode (Recorder n) Cordon (Username req)
             (Split (Getenv env ForbiddenUsersEnv) (CHR '','') @ [systemAdminUser])
             (fst (lookupOk (Annotations obj) reasonAnnotation)) True
             (snd (lookupOk (Annotations obj) reasonAnnotation))
             (Split (fst (lookupOk (Data cm) allowedReasonsKey)) (CHR '',''))
             (fst (lookupOk (Data cm) reasonRegexPatternKey))
      else (admission_Allowed ''Node was updated'', Recorder n))"
  using assms(2-5) by (simp add: Handle_update [OF getAllowedReasonsAndPattern_ok [OF assms(1)]])

text \<open>
  Four facts about the regular user \<open>alice\<close>. An update from unschedulable to
  schedulable that carries a reason is approved by the default case, where
  \<open>userOnlyOperation\<close> called for \<open>Uncordon\<close> denies it because of the annotation. An
  update of a node that is unschedulable before and after, without reason, is handled
  as a \<open>Cordon\<close> and denied for the missing annotation; so is the uncordoning update
  whose new object leaves the key \<open>unschedulable\<close> out, since the decoder then keeps
  the value read from the old object.
\<close>

theorem Handle_update_operation_failing_input:
  "Handle plainLib Map.empty (validatorWith Map.empty)
     (updateRequest ''alice'' (rawNode [] (Some True))
        (rawNode [(reasonAnnotation, ''Testing'')] (Some False)))
     = (admission_Allowed ''Node was updated'', [])
   \<and> userOnlyOperation plainLib emptyNode [] Uncordon ''alice'' [[], systemAdminUser]
        ''Testing'' False True [[]] []
     = (admission_Denied (''Don't forget to remove the '' @ [CHR 0x22] @ reasonAnnotation
          @ [CHR 0x22] @ '' annotation from the node''), [])
   \<and> Handle plainLib Map.empty (validatorWith Map.empty)
        (updateRequest ''alice'' (rawNode [] (Some True)) (rawNode [] (Some True)))
     = (admission_Denied (''You must add '' @ [CHR 0x22] @ reasonAnnotation @ [CHR 0x22]
          @ '' annotation''), [])
   \<and> Handle plainLib Map.empty (validatorWith Map.empty)
        (updateRequest ''alice'' (rawNode [] (Some True)) (rawNode [] None))
     = (admission_Denied (''You must add '' @ [CHR 0x22] @ reasonAnnotation @ [CHR 0x22]
          @ '' annotation''), [])"
proof -
  let ?n = "validatorWith Map.empty"
  let ?env = "Map.empty :: string \<rightharpoonup> string"
  let ?cm = "\<lparr>Data = Map.empty\<rparr>"
  let ?t = "\<lparr>Annotations = Map.empty, Spec = \<lparr>Unschedulable = True\<rparr>\<rparr>"
  let ?f = "\<lparr>Annotations = [reasonAnnotation \<mapsto> ''Testing''], Spec = \<lparr>Unschedulable = False\<rparr>\<rparr>"
  have cl: "Client ?n (cmNamespace, cmName) = Inr ?cm"
    by (simp add: validatorWith_def)
  have u: "admissionv1_Update \<noteq> admissionv1_Delete" "admissionv1_Update \<noteq> admissionv1_Create"
    by (simp_all add: const_defs)
  have d0: "Decoder ?n (rawNode [] (Some True)) emptyNode = Some ?t"
    by (simp add: sample_defs)
  have d1: "Decoder ?n (rawNode [(reasonAnnotation, ''Testing'')] (Some False)) ?t = Some ?f"
    by (simp add: sample_defs)
  have d2: "Decoder ?n (rawNode [] (Some True)) ?t = Some ?t"
    by (simp add: sample_defs)
  have d3: "Decoder ?n (rawNode [] None) ?t = Some ?t"
    by (simp add: sample_defs)
  have alice: "\<not> isServiceAccount ''alice''" "\<not> isNode ''alice''"
    by (simp_all add: isServiceAccount_def isNode_def const_defs)
  have t1: "Handle plainLib ?env ?n
     (updateRequest ''alice'' (rawNode [] (Some True))
        (rawNode [(reasonAnnotation, ''Testing'')] (Some False)))
     = (admission_Allowed ''Node was updated'', [])"
    using Handle_update_operation
      [where req = "updateRequest ''alice'' (rawNode [] (Some True))
                      (rawNode [(reasonAnnotation, ''Testing'')] (Some False))"
         and n = ?n and cm = ?cm and before = ?t and obj = ?f and lib = plainLib and env = ?env]
      cl u d0 d1
    by (simp add: updateRequest_def validatorWith_def)
  have c: "userOnlyOperation plainLib emptyNode [] Cordon ''alice'' [[], systemAdminUser]
        [] True False [[]] []
     = (admission_Denied (''You must add '' @ [CHR 0x22] @ reasonAnnotation @ [CHR 0x22]
          @ '' annotation''), [])"
    by (simp add: userOnlyOperation_def alice systemAdminUser_def plainLib_def)
  have t2: "Handle plainLib ?env ?n
        (updateRequest ''alice'' (rawNode [] (Some True)) (rawNode [] (Some True)))
     = (admission_Denied (''You must add '' @ [CHR 0x22] @ reasonAnnotation @ [CHR 0x22]
          @ '' annotation''), [])"
    using Handle_update_operation
      [where req = "updateRequest ''alice'' (rawNode [] (Some True)) (rawNode [] (Some True))"
         and n = ?n and cm = ?cm and before = ?t and obj = ?t and lib = plainLib and env = ?env]
      cl u d0 d2 c
    by (simp add: updateRequest_def validatorWith_def lookupOk_def Getenv_def)
  have t3: "Handle plainLib ?env ?n
        (updateRequest ''alice'' (rawNode [] (Some True)) (rawNode [] None))
     = (admission_Denied (''You must add '' @ [CHR 0x22] @ reasonAnnotation @ [CHR 0x22]
          @ '' annotation''), [])"
    using Handle_update_operation
      [where req = "updateRequest ''alice'' (rawNode [] (Some True)) (rawNode [] None)"
         and n = ?n and cm = ?cm and before = ?t and obj = ?t and lib = plainLib and env = ?env]
      cl u d0 d3 c
    by (simp add: updateRequest_def validatorWith_def lookupOk_def Getenv_def)
  have un: "userOnlyOperation plainLib emptyNode [] Uncordon ''alice'' [[], systemAdminUser]
        ''Testing'' False True [[]] []
     = (admission_Denied (''Don't forget to remove the '' @ [CHR 0x22] @ reasonAnnotation
          @ [CHR 0x22] @ '' annotation from the node''), [])"
    by (simp add: userOnlyOperation_def alice systemAdminUser_def plainLib_def
        validateNoReason_def response_defs)
  from t1 un t2 t3 show ?thesis by blast
qed

subsection \<open>Audit events\<close>

text \<open>
  Relative to the branch the handler takes, events follow the verdict: a response that
  does not allow records nothing; an approved deletion, creation or cordon records
  exactly one event, for that operation; an update whose decoded node is schedulable is
  approved as \<open>Node was updated\<close> without event, whoever asks; and \<open>userOnlyOperation\<close>
  records exactly one event, for the operation it is called with, when it approves
  and none when it denies.
\<close>

lemma Handle_audit_events:
  "(\<not> Allowed (fst (Handle lib env n req)) \<longrightarrow> snd (Handle lib env n req) = Recorder n)
   \<and> (Client n (cmNamespace, cmName) = Inr cm \<longrightarrow>
        (Operation req = admissionv1_Delete \<and> Decoder n (OldObject req) emptyNode = Some obj
           \<and> Allowed (fst (Handle lib env n req)) \<longrightarrow>
           (\<exists>ev. snd (Handle lib env n req) = Recorder n @ [ev]
              \<and> evReason ev = eventReason @ '': '' @ Delete))
      \<and> (Operation req = admissionv1_Create \<and> Decoder n (Object req) emptyNode = Some obj
           \<and> Allowed (fst (Handle lib env n req)) \<longrightarrow>
           (\<exists>ev. snd (Handle lib env n req) = Recorder n @ [ev]
              \<and> evReason ev = eventReason @ '': '' @ admissionv1_Create))
      \<and> (Operation req \<noteq> admissionv1_Delete \<and> Operation req \<noteq> admissionv1_Create
           \<and> Decoder n (OldObject req) emptyNode = Some before
           \<and> Decoder n (Object req) before = Some obj \<longrightarrow>
           (if Unschedulable (Spec obj)
            then Allowed (fst (Handle lib env n req)) \<longrightarrow>
                   (\<exists>ev. snd (Handle lib env n req) = Recorder n @ [ev]
                      \<and> evReason ev = eventReason @ '': '' @ Cordon)
            else Handle lib env n req = (admission_Allowed ''Node was updated'', Recorder n))))
   \<and> (Allowed (fst (userOnlyOperation lib node recorder operation user forbiddenUsers reason
          isReasonRequired doesReasonExist allowedReasons reasonPattern)) \<longrightarrow>
        (\<exists>ev. snd (userOnlyOperation lib node recorder operation user forbiddenUsers reason
          isReasonRequired doesReasonExist allowedReasons reasonPattern) = recorder @ [ev]
           \<and> evReason ev = eventReason @ '': '' @ operation))
   \<and> (\<not> Allowed (fst (userOnlyOperation lib node recorder operation user forbiddenUsers reason
          isReasonRequired doesReasonExist allowedReasons reasonPattern)) \<longrightarrow>
        snd (userOnlyOperation lib node recorder operation user forbiddenUsers reason
          isReasonRequired doesReasonExist allowedReasons reasonPattern) = recorder)"
proof -
  have deny: "\<not> Allowed (fst (Handle lib env n req)) \<longrightarrow> snd (Handle lib env n req) = Recorder n"
    using Handle_events [of lib env n req] by blast
  have del: "Client n (cmNamespace, cmName) = Inr cm \<Longrightarrow>
      Operation req = admissionv1_Delete \<and> Decoder n (OldObject req) emptyNode = Some obj
           \<and> Allowed (fst (Handle lib env n req)) \<Longrightarrow>
      \<exists>ev. snd (Handle lib env n req) = Recorder n @ [ev]
              \<and> evReason ev = eventReason @ '': '' @ Delete"
  proof -
    assume c: "Client n (cmNamespace, cmName) = Inr cm"
      and h: "Operation req = admissionv1_Delete \<and> Decoder n (OldObject req) emptyNode = Some obj
           \<and> Allowed (fst (Handle lib env n req))"
    note g = getAllowedReasonsAndPattern_ok [OF c]
    from h have e: "Handle lib env n req =
       userOnlyOperation lib emptyNode (Recorder n) Delete (Username req)
         (Split (Getenv env ForbiddenUsersEnv) (CHR '','') @ [systemAdminUser])
         (fst (lookupOk (Annotations obj) reasonAnnotation)) True
         (snd (lookupOk (Annotations obj) reasonAnnotation))
         (Split (fst (lookupOk (Data cm) allowedReasonsKey)) (CHR '','')) 
         (fst (lookupOk (Data cm) reasonRegexPatternKey))"
      by (simp add: Handle_Delete [OF g])
    from h show ?thesis
      unfolding e using userOnlyOperation_one_event by blast
  qed
  have cre: "Client n (cmNamespace, cmName) = Inr cm \<Longrightarrow>
      Operation req = admissionv1_Create \<and> Decoder n (Object req) emptyNode = Some obj
           \<and> Allowed (fst (Handle lib env n req)) \<Longrightarrow>
      \<exists>ev. snd (Handle lib env n req) = Recorder n @ [ev]
              \<and> evReason ev = eventReason @ '': '' @ admissionv1_Create"
  proof -
    assume c: "Client n (cmNamespace, cmName) = Inr cm"
      and h: "Operation req = admissionv1_Create \<and> Decoder n (Object req) emptyNode = Some obj
           \<and> Allowed (fst (Handle lib env n req))"
    note g = getAllowedReasonsAndPattern_ok [OF c]
    from h have a: "Annotations obj reasonAnnotation = None"
      using Handle_Create_any [OF c, of req obj lib env] by simp
    from h a have "snd (Handle lib env n req)
        = createNodeEvent emptyNode (Recorder n) [] (Username req) admissionv1_Create"
      by (simp add: Handle_Create [OF g])
    then show ?thesis
      using createNodeEvent_append [of emptyNode "Recorder n" "[]" "Username req" admissionv1_Create]
      by simp
  qed
  have upd: "Client n (cmNamespace, cmName) = Inr cm \<Longrightarrow>
      Operation req \<noteq> admissionv1_Delete \<and> Operation req \<noteq> admissionv1_Create
           \<and> Decoder n (OldObject req) emptyNode = Some before
           \<and> Decoder n (Object req) before = Some obj \<Longrightarrow>
      (if Unschedulable (Spec obj)
            then Allowed (fst (Handle lib env n req)) \<longrightarrow>
                   (\<exists>ev. snd (Handle lib env n req) = Recorder n @ [ev]
                      \<and> evReason ev = eventReason @ '': '' @ Cordon)
            else Handle lib env n req = (admission_Allowed ''Node was updated'', Recorder n))"
  proof -
    assume c: "Client n (cmNamespace, cmName) = Inr cm"
      and h: "Operation req \<noteq> admissionv1_Delete \<and> Operation req \<noteq> admissionv1_Create
           \<and> Decoder n (OldObject req) emptyNode = Some before
           \<and> Decoder n (Object req) before = Some obj"
    note g = getAllowedReasonsAndPattern_ok [OF c]
    from h have e: "Handle lib env n req =
     (if Unschedulable (Spec obj)
      then userOnlyOperation lib emptyNode (Recorder n) Cordon (Username req)
             (Split (Getenv env ForbiddenUsersEnv) (CHR '','') @ [systemAdminUser])
             (fst (lookupOk (Annotations obj) reasonAnnotation)) True
             (snd (lookupOk (Annotations obj) reasonAnnotation))
             (Split (fst (lookupOk (Data cm) allowedReasonsKey)) (CHR '',''))
             (fst (lookupOk (Data cm) reasonRegexPatternKey))
      else (admission_Allowed ''Node was updated'', Recorder n))"
      by (simp add: Handle_update [OF g])
    show ?thesis
    proof (cases "Unschedulable (Spec obj)")
      case True
      then show ?thesis
        unfolding e using userOnlyOperation_one_event by simp
    next
      case False
      then show ?thesis unfolding e by simp
    qed
  qed
  from deny del cre upd userOnlyOperation_one_event
    [of lib node recorder operation user forbiddenUsers reason
        isReasonRequired doesReasonExist allowedReasons reasonPattern]
  show ?thesis by blast
qed

text \<open>
  Claim C8, at three requests. The regular user \<open>alice\<close> uncordons a node without
  reason: when the new object writes \<open>unschedulable\<close> as false the update takes the
  default case and is approved without any event, and when it leaves the key out the
  update is handled as a \<open>Cordon\<close> and denied; \<open>userOnlyOperation\<close> called for
  \<open>Uncordon\<close> on the same user approves and records one event. The built-in
  administrator updates a node that is unschedulable before and after, which changes
  no scheduling state: the update is handled as a \<open>Cordon\<close> and denied.
\<close>

theorem Handle_uncordon_without_event_failing_input:
  "Handle plainLib Map.empty (validatorWith Map.empty)
     (updateRequest ''alice'' (rawNode [] (Some True)) (rawNode [] (Some False)))
     = (admission_Allowed ''Node was updated'', [])
   \<and> Handle plainLib Map.empty (validatorWith Map.empty)
        (updateRequest ''alice'' (rawNode [] (Some True)) (rawNode [] None))
     = (admission_Denied (''You must add '' @ [CHR 0x22] @ reasonAnnotation @ [CHR 0x22]
          @ '' annotation''), [])
   \<and> userOnlyOperation plainLib emptyNode [] Uncordon ''alice'' [[], systemAdminUser]
        [] False False [[]] []
     = (admission_Allowed ''Operation approved'',
        [\<lparr>evObject = emptyNode, evType = ''Normal'', evReason = ''NodeOperation: uncordon'',
          evMessage = ''alice: ''\<rparr>])
   \<and> \<not> Allowed (fst (Handle plainLib Map.empty (validatorWith Map.empty)
        (updateRequest systemAdminUser (rawNode [] (Some True)) (rawNode [] (Some True)))))"
  by (simp add: Handle_def getAllowedReasonsAndPattern_def lookupOk_def Getenv_def const_defs
      userOnlyOperation_def isServiceAccount_def isNode_def validateNoReason_def
      response_defs sample_defs plainLib_def createNodeEvent_def)

end
